theory Spec2Isabelle
  imports Main "HOL-Library.Sublist" "HOL-Library.Char_ord" "HOL-Library.List_Lexorder"
    "HOL-Library.AList"
begin

section \<open>Values of the host language\<close>

text \<open>
  A JavaScript string is a \<^typ>\<open>string\<close>; \<open>a <= b\<close> on strings is the lexicographic order
  of \<^theory_text>\<open>List_Lexorder\<close> over the character codes, \<open>startsWith\<close> is \<^const>\<open>prefix\<close>.
  A property that may be \<open>undefined\<close> is an \<open>option\<close>. An object whose members are all
  optional strings (\<open>process.env\<close>, the driver's \<open>Environment\<close>) is a map from member
  names to strings.
\<close>

type_synonym Environment = "string \<rightharpoonup> string"

text \<open>\<open>x && ...\<close> and \<open>if (x)\<close> on an optional string: \<open>undefined\<close> and \<open>''\<close> are falsy.\<close>

fun truthy :: "string option \<Rightarrow> bool" where
  "truthy None = False"
| "truthy (Some s) = (s \<noteq> [])"

text \<open>\<open>String.prototype.includes\<close>: the argument occurs as a substring.\<close>

fun includes_str :: "string \<Rightarrow> string \<Rightarrow> bool" where
  "includes_str [] t = (t = [])"
| "includes_str (c # cs) t = (prefix t (c # cs) \<or> includes_str cs t)"

text \<open>\<open>Array.prototype.join\<close>.\<close>

fun join :: "string list \<Rightarrow> string \<Rightarrow> string" where
  "join [] sep = []"
| "join [x] sep = x"
| "join (x # y # ys) sep = x @ sep @ join (y # ys) sep"

subsection \<open>Thrown values\<close>

text \<open>
  What \<open>JSON.parse(response.body).__type\<close> evaluates to inside \<open>isErrorType\<close>: the remote
  sends a string, the source's type annotation says an array of strings, anything else has
  no \<open>includes\<close> method.
\<close>

datatype type_member = TypeString string | TypeArray "string list" | TypeOther

text \<open>
  The body text of an error response, represented by what decoding it gives:
  \<open>NotJson\<close> when \<open>JSON.parse\<close> (or reading a member of its result) throws, otherwise the
  \<open>__type\<close> member, \<open>None\<close> when the member is absent.
\<close>

datatype response_body = NotJson | JsonBody "type_member option"

text \<open>
  The values the code throws and catches: an \<open>Error\<close> with a message and, for the
  driver's own two errors, a \<open>status\<close> property; the error of the transport, which alone
  carries a \<open>response\<close> with the HTTP status and the body; the \<open>SyntaxError\<close> of
  \<open>JSON.parse\<close>; the \<open>TypeError\<close> of \<open>new URL\<close>.
\<close>

datatype thrown =
    Error (message: string) (status: "nat option")
  | ResponseError nat response_body
  | SyntaxError
  | TypeError

definition conflict :: thrown where
  "conflict = Error ''Conflict'' (Some 409)"

definition notFound :: thrown where
  "notFound = Error ''Not found'' (Some 404)"

definition isErrorType :: "thrown \<Rightarrow> string \<Rightarrow> bool" where
  "isErrorType error type =
     (case error of
        ResponseError st b \<Rightarrow>
          (case b of
             NotJson \<Rightarrow> False
           | JsonBody t \<Rightarrow>
               (case t of
                  None \<Rightarrow> False
                | Some (TypeString s) \<Rightarrow> includes_str s type
                | Some (TypeArray ts) \<Rightarrow> type \<in> set ts
                | Some TypeOther \<Rightarrow> False))
      | _ \<Rightarrow> False)"

text \<open>\<open>missing(name)\<close> of the fetch package never returns: it throws.\<close>

definition missing :: "string \<Rightarrow> thrown" where
  "missing name = Error (''Missing '' @ name) None"

section \<open>Credentials: \<open>localAwsEnv\<close>\<close>

record LocalEnv =
  AWS_REGION :: string
  AWS_ACCESS_KEY_ID :: string
  AWS_SECRET_ACCESS_KEY :: string
  AWS_SESSION_TOKEN :: "string option"

text \<open>
  The process as \<open>localAwsEnv\<close> sees it: \<open>process.env\<close>, the module variable
  \<open>cachedConfigLines\<close>, the files \<open>readFile\<close> can read, and \<open>homedir()\<close>.
\<close>

record process =
  process_env :: Environment
  cachedConfigLines :: "string list option"
  files :: "string \<rightharpoonup> string"
  homedir :: string

text \<open>\<open>s.split(c)\<close> for a one-character separator: never empty.\<close>

fun split :: "char \<Rightarrow> string \<Rightarrow> string list" where
  "split c [] = [[]]"
| "split c (x # xs) =
     (if x = c then [] # split c xs
      else (case split c xs of [] \<Rightarrow> [[x]] | y # ys \<Rightarrow> (x # y) # ys))"

definition is_space :: "char \<Rightarrow> bool" where
  "is_space c = (c \<in> set [CHR '' '', CHR 0x09, CHR 0x0A, CHR 0x0B, CHR 0x0C, CHR 0x0D])"

definition trim :: "string \<Rightarrow> string" where
  "trim s = rev (dropWhile is_space (rev (dropWhile is_space s)))"

text \<open>\<open>xs.indexOf(x)\<close>, with \<open>None\<close> for \<open>-1\<close>.\<close>

fun indexOf :: "'a list \<Rightarrow> 'a \<Rightarrow> nat option" where
  "indexOf [] x = None"
| "indexOf (y # ys) x = (if y = x then Some 0 else map_option Suc (indexOf ys x))"

text \<open>\<open>xs.findIndex((line, ix) => p line ix)\<close>, counting from index \<open>i\<close>.\<close>

fun findIndex :: "('a \<Rightarrow> nat \<Rightarrow> bool) \<Rightarrow> nat \<Rightarrow> 'a list \<Rightarrow> nat option" where
  "findIndex p i [] = None"
| "findIndex p i (y # ys) = (if p y i then Some i else findIndex p (Suc i) ys)"

text \<open>\<open>sectionLines.find(([k]) => k === name)?.[1]\<close> on the split and trimmed lines.\<close>

fun find_value :: "(string \<times> string option) list \<Rightarrow> string \<Rightarrow> string option" where
  "find_value [] name = None"
| "find_value ((k, v) # rest) name = (if k = name then v else find_value rest name)"

text \<open>One line \<open>k = v\<close>: \<open>line.split('=')\<close>, then the first two parts, trimmed.\<close>

definition key_value :: "string \<Rightarrow> string \<times> string option" where
  "key_value line =
     (case split CHR ''='' line of
        [] \<Rightarrow> ([], None)
      | [k] \<Rightarrow> (trim k, None)
      | k # v # _ \<Rightarrow> (trim k, Some (trim v)))"

definition parse_lines :: "string \<Rightarrow> string list" where
  "parse_lines text =
     filter (\<lambda>line. line \<noteq> [] \<and> \<not> prefix ''#'' line) (map trim (split CHR 0x0A text))"

fun localAwsEnv ::
  "string option \<Rightarrow> string option \<Rightarrow> process \<Rightarrow> (thrown + LocalEnv) \<times> process" where
  "localAwsEnv region profile p =
     (let region0 =
            (case region of
               Some r \<Rightarrow> Some r
             | None \<Rightarrow>
                 (case process_env p ''AWS_REGION'' of
                    Some r \<Rightarrow> Some r
                  | None \<Rightarrow> process_env p ''AWS_DEFAULT_REGION''));
          key_id0 = process_env p ''AWS_ACCESS_KEY_ID'';
          secret0 = process_env p ''AWS_SECRET_ACCESS_KEY'';
          token0 = process_env p ''AWS_SESSION_TOKEN''
      in
        if truthy region0 \<and> truthy key_id0 \<and> truthy secret0 then
          (Inr \<lparr>AWS_REGION = the region0, AWS_ACCESS_KEY_ID = the key_id0,
                 AWS_SECRET_ACCESS_KEY = the secret0, AWS_SESSION_TOKEN = None\<rparr>, p)
        else
          (case (case cachedConfigLines p of
                   Some ls \<Rightarrow> Inr ls
                 | None \<Rightarrow>
                     (case files p
                             (case process_env p ''AWS_SHARED_CREDENTIALS_FILE'' of
                                Some f \<Rightarrow> f
                              | None \<Rightarrow> homedir p @ ''/.aws/credentials'') of
                        None \<Rightarrow> Inl (Error ''ENOENT'' None)
                      | Some text \<Rightarrow> Inr (parse_lines text))) of
             Inl e \<Rightarrow> (Inl e, p)
           | Inr configLines \<Rightarrow>
               (let p' = p\<lparr>cachedConfigLines := Some configLines\<rparr>;
                    section = ''['' @ (case profile of Some n \<Rightarrow> n | None \<Rightarrow> ''default'') @ '']'';
                    sectionBeginIx =
                      (case indexOf configLines section of
                         Some i \<Rightarrow> Some i
                       | None \<Rightarrow> indexOf configLines ''[default]'')
                in
                  (case sectionBeginIx of
                     None \<Rightarrow> (Inl (Error ''Section not found.'' None), p')
                   | Some b \<Rightarrow>
                       (let sectionEndIx =
                              findIndex (\<lambda>line ix. ix > b \<and> prefix ''['' line) 0 configLines;
                            sectionLines =
                              map key_value
                                (case sectionEndIx of
                                   None \<Rightarrow> drop (b + 1) configLines
                                 | Some e \<Rightarrow> take (e - (b + 1)) (drop (b + 1) configLines));
                            region1 =
                              (case region0 of
                                 Some r \<Rightarrow> Some r
                               | None \<Rightarrow> find_value sectionLines ''region'');
                            key_id1 = find_value sectionLines ''aws_access_key_id'';
                            secret1 = find_value sectionLines ''aws_secret_access_key'';
                            token1 = find_value sectionLines ''aws_session_token''
                        in
                          if \<not> truthy region1 \<or> \<not> truthy key_id1 \<or> \<not> truthy secret1 then
                            (Inl (Error ''Incomplete AWS credentials file.'' None), p')
                          else
                            (Inr \<lparr>AWS_REGION = the region1, AWS_ACCESS_KEY_ID = the key_id1,
                                   AWS_SECRET_ACCESS_KEY = the secret1,
                                   AWS_SESSION_TOKEN = token1\<rparr>, p'))))))"

section \<open>The remote call layer\<close>

text \<open>
  The wire encoding of an attribute: of the members of \<open>AttributeValue\<close> the code reads
  \<open>S\<close> and writes \<open>S\<close> and \<open>N\<close>; both are optional.
\<close>

record AttributeValue =
  S :: "string option"
  N :: "string option"

abbreviation S_of :: "string \<Rightarrow> AttributeValue" where
  "S_of s \<equiv> \<lparr>S = Some s, N = None\<rparr>"

abbreviation N_of :: "string \<Rightarrow> AttributeValue" where
  "N_of s \<equiv> \<lparr>S = None, N = Some s\<rparr>"

text \<open>An object of attributes, in the order of its members.\<close>

type_synonym item = "(string \<times> AttributeValue) list"

text \<open>\<open>item.name?.S\<close>.\<close>

definition attr_S :: "item \<Rightarrow> string \<Rightarrow> string option" where
  "attr_S it name = (case map_of it name of None \<Rightarrow> None | Some a \<Rightarrow> S a)"

text \<open>
  A member of \<open>ExpressionAttributeValues\<close>: an attribute, or what
  \<open>range.before && { S: range.before }\<close> leaves when the bound is falsy.
\<close>

datatype expr_value = Attr AttributeValue | EmptyString | UndefinedValue

record KeyCondition =
  KeyConditionExpression :: string
  ExpressionAttributeNames :: "(string \<times> string) list"
  ExpressionAttributeValues :: "(string \<times> expr_value) list"

text \<open>The billing options of \<open>CreateTable\<close>; the capacities are the operands of \<open>Number\<close>.\<close>

datatype BillingMode = PROVISIONED string string | PAY_PER_REQUEST

text \<open>
  The object handed to \<open>dbRequest\<close> as \<open>body\<close>, one constructor for each shape the driver
  builds. \<open>JSON.stringify(body)\<close> is represented by the object itself.
\<close>

datatype request_body =
    PutItemInput (TableName: string) item string
  | GetItemInput (TableName: string) item
  | QueryInput (TableName: string) "item option" KeyCondition
  | UpdateItemInput (TableName: string) item string string item
  | DeleteItemInput (TableName: string) item "(string \<times> item) option"
  | CreateTableInput (TableName: string) "(string \<times> string) list" "(string \<times> string) list"
      BillingMode

text \<open>The decoded JSON of a successful response: the members the driver reads.\<close>

record Response =
  Item :: "item option"
  Items :: "item list option"
  LastEvaluatedKey :: "item option"

datatype AbortSignal = AbortSignal bool

text \<open>
  The members of a parsed \<open>URL\<close> the code reads; \<open>href\<close> is what \<open>toString()\<close> gives.
\<close>

record URL =
  href :: string
  hostname :: string
  pathname :: string
  searchParams :: "(string \<times> string) list"

text \<open>
  One HTTP call as \<open>awsStringRequest\<close> issues it: the credentials, path and query given
  to the signer, the URL, and the members of the object passed to \<open>fetchJson\<close>.
  \<open>init_signal\<close> is the \<open>signal\<close> member of that object.
\<close>

record http_call =
  credentials :: LocalEnv
  uri :: string
  http_method :: string
  sign_path :: string
  sign_query :: "(string \<times> string) list"
  headers :: "(string \<times> string) list"
  http_body :: request_body
  init_signal :: "AbortSignal option"

text \<open>
  What the code takes from outside the repository, over a state \<open>'w\<close> of the world and a
  type \<open>'d\<close> of documents: \<open>new URL\<close> (\<open>None\<close> when it throws a \<open>TypeError\<close>), signing
  and sending one call (\<open>SignatureV4.sign\<close> followed by \<open>fetchJson\<close>), \<open>randomUUID()\<close>,
  \<open>new Date().toISOString()\<close>, the timer, and \<open>JSON.stringify\<close> (which may throw, or
  return \<open>undefined\<close>) and \<open>JSON.parse\<close> (\<open>None\<close> when it throws a \<open>SyntaxError\<close>) on
  documents.
\<close>

record ('w, 'd) platform =
  new_URL :: "string \<Rightarrow> URL option"
  fetchJson :: "http_call \<Rightarrow> 'w \<Rightarrow> (thrown + Response) \<times> 'w"
  randomUUID :: "'w \<Rightarrow> string \<times> 'w"
  toISOString :: "'w \<Rightarrow> string"
  setTimeout :: "nat \<Rightarrow> 'w \<Rightarrow> 'w"
  JSON_stringify :: "'d \<Rightarrow> thrown + string option"
  JSON_parse :: "string \<Rightarrow> 'd option"

text \<open>
  The URL is parsed before anything is signed or sent: when \<open>new URL\<close> throws, no call is
  made. The host header and the signer take the host and path of the parsed URL, and the
  query is the object filled from its search parameters.
\<close>

definition awsStringRequest ::
  "('w, 'd) platform \<Rightarrow> LocalEnv \<Rightarrow> string \<Rightarrow> string \<Rightarrow> string \<Rightarrow> request_body \<Rightarrow> string \<Rightarrow>
     string \<Rightarrow> 'w \<Rightarrow> (thrown + Response) \<times> 'w" where
  "awsStringRequest P e method service path body contentType target w =
     (case new_URL P (''https://'' @ service @ ''.'' @ AWS_REGION e @ ''.amazonaws.com'' @ path) of
        None \<Rightarrow> (Inl TypeError, w)
      | Some u \<Rightarrow>
          fetchJson P
            \<lparr>credentials = e,
             uri = href u,
             http_method = method,
             sign_path = pathname u,
             sign_query = foldl (\<lambda>q (k, v). AList.update k v q) [] (searchParams u),
             headers =
               [(''host'', hostname u), (''content-type'', contentType),
                (''accept'', ''application/json'')]
               @ (if target \<noteq> [] then [(''X-Amz-Target'', target)] else []),
             http_body = body,
             init_signal = None\<rparr> w)"

definition dbRequest ::
  "('w, 'd) platform \<Rightarrow> Environment option \<Rightarrow> string \<Rightarrow> request_body \<Rightarrow> 'w \<Rightarrow>
     (thrown + Response) \<times> 'w" where
  "dbRequest P e target body w =
     (case Option.bind e (\<lambda>m. m ''AWS_REGION'') of
        None \<Rightarrow> (Inl (missing ''AWS_REGION''), w)
      | Some region \<Rightarrow>
          (case Option.bind e (\<lambda>m. m ''AWS_ACCESS_KEY_ID'') of
             None \<Rightarrow> (Inl (missing ''AWS_ACCESS_KEY_ID''), w)
           | Some key_id \<Rightarrow>
               (case Option.bind e (\<lambda>m. m ''AWS_SECRET_ACCESS_KEY'') of
                  None \<Rightarrow> (Inl (missing ''AWS_SECRET_ACCESS_KEY''), w)
                | Some secret \<Rightarrow>
                    awsStringRequest P
                      \<lparr>AWS_REGION = region, AWS_ACCESS_KEY_ID = key_id,
                       AWS_SECRET_ACCESS_KEY = secret,
                       AWS_SESSION_TOKEN = Option.bind e (\<lambda>m. m ''AWS_SESSION_TOKEN'')\<rparr>
                      ''POST'' ''dynamodb'' ''/'' body ''application/json''
                      (''DynamoDB_20120810.'' @ target) w)))"

section \<open>Key ranges\<close>

text \<open>
  Modelled from the spec: the type \<open>KeyRange\<close> of \<open>schema.ts\<close>, which the driver imports,
  is \<open>{withPrefix: string}\<close> or \<open>{after?: string, before?: string}\<close>. An optional member is
  absent, present and \<open>undefined\<close>, or a string: \<open>'after' in range\<close> tells the first two
  apart.
\<close>

datatype bound = Absent | Undefined | Bound string

datatype KeyRange = WithPrefix string | Bounds (after: bound) (before: bound)

text \<open>\<open>'after' in range\<close>.\<close>

fun in_range :: "bound \<Rightarrow> bool" where
  "in_range Absent = False"
| "in_range _ = True"

text \<open>The value of \<open>range.after\<close>.\<close>

fun bound_value :: "bound \<Rightarrow> string option" where
  "bound_value (Bound s) = Some s"
| "bound_value _ = None"

text \<open>\<open>range.after && { S: range.after }\<close>.\<close>

fun and_S :: "bound \<Rightarrow> expr_value" where
  "and_S (Bound s) = (if s = [] then EmptyString else Attr (S_of s))"
| "and_S _ = UndefinedValue"

definition queryFromRange :: "string \<Rightarrow> KeyRange option \<Rightarrow> thrown + KeyCondition" where
  "queryFromRange part rng =
     (case rng of
        None \<Rightarrow>
          Inr \<lparr>KeyConditionExpression = ''#p = :p'',
               ExpressionAttributeNames = [(''#p'', ''partition'')],
               ExpressionAttributeValues = [('':p'', Attr (S_of part))]\<rparr>
      | Some (WithPrefix s) \<Rightarrow>
          Inr \<lparr>KeyConditionExpression = ''#p = :p AND begins_with(#k, :withPrefix)'',
               ExpressionAttributeNames = [(''#p'', ''partition''), (''#k'', ''key'')],
               ExpressionAttributeValues =
                 [('':p'', Attr (S_of part)), ('':withPrefix'', Attr (S_of s))]\<rparr>
      | Some (Bounds a b) \<Rightarrow>
          if in_range b \<or> in_range a then
            Inr \<lparr>KeyConditionExpression =
                   join
                     ([''#p = :p'']
                      @ (if truthy (bound_value a) then
                           (if truthy (bound_value b) then [''#k between :after and :before'']
                            else ['':after <= #k''])
                         else if truthy (bound_value b) then [''#k < :before'']
                         else []))
                     '' and '',
                 ExpressionAttributeNames = [(''#p'', ''partition''), (''#k'', ''key'')],
                 ExpressionAttributeValues =
                   [('':p'', Attr (S_of part)), ('':before'', and_S b),
                    ('':after'', and_S a)]\<rparr>
          else Inl (Error ''Unsupported range.'' None))"

text \<open>\<open>matchRange(range)(key)\<close>.\<close>

definition matchRange :: "KeyRange option \<Rightarrow> string \<Rightarrow> bool" where
  "matchRange rng key =
     (case rng of
        None \<Rightarrow> True
      | Some (WithPrefix s) \<Rightarrow> prefix s key
      | Some (Bounds a b) \<Rightarrow>
          if in_range b \<or> in_range a then
            (if truthy (bound_value a) then
               (if truthy (bound_value b) then
                  the (bound_value a) \<le> key \<and> key < the (bound_value b)
                else the (bound_value a) \<le> key)
             else if truthy (bound_value b) then key < the (bound_value b)
             else False)
          else False)"

section \<open>The storage driver\<close>

text \<open>
  The context of a connection. The logger's \<open>debug\<close> acts on the world; the driver passes
  it the message, the error and the table.
\<close>

record 'w Context =
  env :: "Environment option"
  log :: "(string \<Rightarrow> thrown \<Rightarrow> string \<Rightarrow> 'w \<Rightarrow> 'w) option"
  signal :: "AbortSignal option"

text \<open>\<open>this.#context.log?.debug(message, e, {table})\<close>.\<close>

definition debug :: "'w Context \<Rightarrow> string \<Rightarrow> thrown \<Rightarrow> string \<Rightarrow> 'w \<Rightarrow> 'w" where
  "debug ctx msg e table w = (case log ctx of None \<Rightarrow> w | Some d \<Rightarrow> d msg e table w)"

definition tableName :: "'w Context \<Rightarrow> string \<Rightarrow> string" where
  "tableName ctx table =
     (case Option.bind (env ctx) (\<lambda>m. m ''TABLE_PREFIX'') of None \<Rightarrow> [] | Some s \<Rightarrow> s)
     @ table
     @ (case Option.bind (env ctx) (\<lambda>m. m ''TABLE_POSTFIX'') of None \<Rightarrow> [] | Some s \<Rightarrow> s)"

text \<open>\<open>randomUUID().replaceAll('-', '')\<close>.\<close>

definition freshRevision :: "string \<Rightarrow> string" where
  "freshRevision uuid = filter (\<lambda>c. c \<noteq> CHR ''-'') uuid"

text \<open>The record \<open>get\<close> returns and \<open>getPartition\<close> yields.\<close>

record 'd DocRecord =
  rec_partition :: string
  rec_key :: string
  rec_revision :: "string option"
  rec_document :: 'd

definition createTable ::
  "('w, 'd) platform \<Rightarrow> 'w Context \<Rightarrow> string \<Rightarrow> 'w \<Rightarrow> (thrown + unit) \<times> 'w" where
  "createTable P ctx table w =
     (let tableOptions =
            (if Option.bind (env ctx) (\<lambda>m. m ''AWS_DYNAMODB_BILLING_METHOD'') = Some ''PROVISIONED''
             then PROVISIONED
                    (case Option.bind (env ctx) (\<lambda>m. m ''AWS_DYNAMODB_RCU'') of
                       None \<Rightarrow> ''1'' | Some s \<Rightarrow> s)
                    (case Option.bind (env ctx) (\<lambda>m. m ''AWS_DYNAMODB_WCU'') of
                       None \<Rightarrow> ''1'' | Some s \<Rightarrow> s)
             else PAY_PER_REQUEST)
      in
        (case dbRequest P (env ctx) ''CreateTable''
                (CreateTableInput (tableName ctx table)
                   [(''partition'', ''S''), (''key'', ''S'')]
                   [(''partition'', ''HASH''), (''key'', ''RANGE'')]
                   tableOptions) w of
           (Inr _, w') \<Rightarrow> (Inr (), w')
         | (Inl e, w') \<Rightarrow>
             if isErrorType e ''ResourceInUseException'' then (Inr (), w') else (Inl e, w')))"

text \<open>
  The \<open>try\<close> block of \<open>add\<close>: the arguments of \<open>dbRequest\<close> are evaluated first, so a
  throwing \<open>JSON.stringify\<close> comes before any call.
\<close>

definition add_try ::
  "('w, 'd) platform \<Rightarrow> 'w Context \<Rightarrow> string \<Rightarrow> string \<Rightarrow> string \<Rightarrow> 'd \<Rightarrow> string \<Rightarrow> 'w \<Rightarrow>
     (thrown + Response) \<times> 'w" where
  "add_try P ctx table part key doc revision w =
     (let now = toISOString P w in
        (case JSON_stringify P doc of
           Inl e \<Rightarrow> (Inl e, w)
         | Inr text \<Rightarrow>
             dbRequest P (env ctx) ''PutItem''
               (PutItemInput (tableName ctx table)
                  [(''partition'', S_of part), (''key'', S_of key),
                   (''revision'', S_of revision), (''created'', S_of now),
                   (''updated'', S_of now), (''seq'', N_of ''0''),
                   (''document'', \<lparr>S = text, N = None\<rparr>)]
                  ''attribute_not_exists(revision)'') w))"

text \<open>
  \<open>add\<close> retries without a bound: a call that never returns is \<open>None\<close>. The result is
  the thrown value or the revision, with the world the call leaves.
\<close>

partial_function (option) add ::
  "('w, 'd) platform \<Rightarrow> 'w Context \<Rightarrow> string \<Rightarrow> string \<Rightarrow> string \<Rightarrow> 'd \<Rightarrow> 'w \<Rightarrow>
     ((thrown + string) \<times> 'w) option" where
  "add P ctx table part key doc w =
     (case randomUUID P w of
        (uuid, w0) \<Rightarrow>
          (case add_try P ctx table part key doc (freshRevision uuid) w0 of
             (Inr _, w1) \<Rightarrow> Some (Inr (freshRevision uuid), w1)
           | (Inl e, w1) \<Rightarrow>
               if isErrorType e ''ResourceNotFoundException'' then
                 (case createTable P ctx table w1 of
                    (Inl e', w2) \<Rightarrow> Some (Inl e', w2)
                  | (Inr _, w2) \<Rightarrow> add P ctx table part key doc (setTimeout P 1000 w2))
               else if isErrorType e ''ResourceInUseException'' then
                 add P ctx table part key doc
                   (setTimeout P 1000
                      (debug ctx ''Table in use; retrying assuming it is being created.'' e
                         table w1))
               else if isErrorType e ''ConditionalCheckFailedException'' then
                 Some (Inl conflict, w1)
               else Some (Inl e, w1)))"

text \<open>The \<open>catch\<close> clause of \<open>get\<close>: it also sees what the \<open>try\<close> block itself throws.\<close>

definition get_catch :: "thrown \<Rightarrow> thrown" where
  "get_catch e =
     (if isErrorType e ''ResourceNotFoundException'' then notFound
      else if isErrorType e ''ResourceInUseException'' then notFound
      else e)"

definition get ::
  "('w, 'd) platform \<Rightarrow> 'w Context \<Rightarrow> string \<Rightarrow> string \<Rightarrow> string \<Rightarrow> 'w \<Rightarrow>
     (thrown + 'd DocRecord) \<times> 'w" where
  "get P ctx table part key w =
     (case dbRequest P (env ctx) ''GetItem''
             (GetItemInput (tableName ctx table)
                [(''partition'', S_of part), (''key'', S_of key)]) w of
        (Inl e, w') \<Rightarrow> (Inl (get_catch e), w')
      | (Inr result, w') \<Rightarrow>
          (case Item result of
             None \<Rightarrow> (Inl (get_catch notFound), w')
           | Some it \<Rightarrow>
               (case JSON_parse P
                       (case attr_S it ''document'' of None \<Rightarrow> ''{}'' | Some s \<Rightarrow> s) of
                  None \<Rightarrow> (Inl (get_catch SyntaxError), w')
                | Some d \<Rightarrow>
                    (Inr \<lparr>rec_partition = part, rec_key = key,
                          rec_revision = attr_S it ''revision'', rec_document = d\<rparr>, w'))))"

text \<open>
  How a scan ends: the generator returns, it throws, or (in the model only) the bound on
  the number of pages is reached while the scan goes on.
\<close>

datatype ending = Returned | Threw thrown | Pending

definition getPartition_catch :: "thrown \<Rightarrow> ending" where
  "getPartition_catch e =
     (if isErrorType e ''ResourceNotFoundException'' then Returned
      else if isErrorType e ''ResourceInUseException'' then Returned
      else Threw e)"

text \<open>
  The inner loop over one page: the records yielded, and the \<open>SyntaxError\<close> of
  \<open>JSON.parse\<close> if a document stops the loop.
\<close>

fun yield_items ::
  "('w, 'd) platform \<Rightarrow> KeyRange option \<Rightarrow> item list \<Rightarrow> 'd DocRecord list \<times> thrown option" where
  "yield_items P rng [] = ([], None)"
| "yield_items P rng (it # rest) =
     (let key = attr_S it ''key'' in
        if \<not> truthy key \<or> (rng \<noteq> None \<and> \<not> matchRange rng (the key)) then yield_items P rng rest
        else
          (case JSON_parse P (case attr_S it ''document'' of None \<Rightarrow> ''{}'' | Some s \<Rightarrow> s) of
             None \<Rightarrow> ([], Some SyntaxError)
           | Some d \<Rightarrow>
               (case yield_items P rng rest of
                  (ys, e) \<Rightarrow>
                    (\<lparr>rec_partition = (case attr_S it ''partition'' of None \<Rightarrow> [] | Some s \<Rightarrow> s),
                      rec_key = the key, rec_revision = attr_S it ''revision'',
                      rec_document = d\<rparr> # ys, e))))"

text \<open>
  The outer loop, for at most \<open>pages\<close> queries: the records yielded in order, how the scan
  ends, and the world it leaves.
\<close>

fun getPartition_from ::
  "('w, 'd) platform \<Rightarrow> 'w Context \<Rightarrow> string \<Rightarrow> string \<Rightarrow> KeyRange option \<Rightarrow> nat \<Rightarrow>
     item option \<Rightarrow> 'w \<Rightarrow> 'd DocRecord list \<times> ending \<times> 'w" where
  "getPartition_from P ctx table part rng 0 lastEvaluatedKey w = ([], Pending, w)"
| "getPartition_from P ctx table part rng (Suc pages) lastEvaluatedKey w =
     (case queryFromRange part rng of
        Inl e \<Rightarrow> ([], getPartition_catch e, w)
      | Inr q \<Rightarrow>
          (case dbRequest P (env ctx) ''Query''
                  (QueryInput (tableName ctx table) lastEvaluatedKey q) w of
             (Inl e, w') \<Rightarrow> ([], getPartition_catch e, w')
           | (Inr result, w') \<Rightarrow>
               (case yield_items P rng (case Items result of None \<Rightarrow> [] | Some its \<Rightarrow> its) of
                  (ys, Some e) \<Rightarrow> (ys, getPartition_catch e, w')
                | (ys, None) \<Rightarrow>
                    (case LastEvaluatedKey result of
                       None \<Rightarrow> (ys, Returned, w')
                     | Some k \<Rightarrow>
                         (case getPartition_from P ctx table part rng pages (Some k) w' of
                            (ys', en, w'') \<Rightarrow> (ys @ ys', en, w''))))))"

definition getPartition ::
  "('w, 'd) platform \<Rightarrow> 'w Context \<Rightarrow> string \<Rightarrow> string \<Rightarrow> KeyRange option \<Rightarrow> nat \<Rightarrow> 'w \<Rightarrow>
     'd DocRecord list \<times> ending \<times> 'w" where
  "getPartition P ctx table part rng pages w =
     getPartition_from P ctx table part rng pages None w"

text \<open>The \<open>try\<close> block of \<open>update\<close>.\<close>

definition update_try ::
  "('w, 'd) platform \<Rightarrow> 'w Context \<Rightarrow> string \<Rightarrow> string \<Rightarrow> string \<Rightarrow> string option \<Rightarrow> 'd \<Rightarrow>
     string \<Rightarrow> 'w \<Rightarrow> (thrown + Response) \<times> 'w" where
  "update_try P ctx table part key currentRevision doc newRevision w =
     (let now = toISOString P w in
        (case JSON_stringify P doc of
           Inl e \<Rightarrow> (Inl e, w)
         | Inr text \<Rightarrow>
             dbRequest P (env ctx) ''UpdateItem''
               (UpdateItemInput (tableName ctx table)
                  [(''partition'', S_of part), (''key'', S_of key)]
                  ''ADD seq :one SET revision = :newRevision, updated = :now, document = :document''
                  ''revision = :oldRevision''
                  [('':one'', N_of ''1''),
                   ('':oldRevision'', \<lparr>S = currentRevision, N = None\<rparr>),
                   ('':newRevision'', S_of newRevision), ('':now'', S_of now),
                   ('':document'', \<lparr>S = text, N = None\<rparr>)]) w))"

partial_function (option) update ::
  "('w, 'd) platform \<Rightarrow> 'w Context \<Rightarrow> string \<Rightarrow> string \<Rightarrow> string \<Rightarrow> string option \<Rightarrow> 'd \<Rightarrow> 'w \<Rightarrow>
     ((thrown + string) \<times> 'w) option" where
  "update P ctx table part key currentRevision doc w =
     (case randomUUID P w of
        (uuid, w0) \<Rightarrow>
          (case update_try P ctx table part key currentRevision doc (freshRevision uuid) w0 of
             (Inr _, w1) \<Rightarrow> Some (Inr (freshRevision uuid), w1)
           | (Inl e, w1) \<Rightarrow>
               if isErrorType e ''ConditionalCheckFailedException'' then
                 Some (Inl conflict, w1)
               else if isErrorType e ''ResourceInUseException'' then
                 update P ctx table part key currentRevision doc
                   (setTimeout P 1000
                      (debug ctx ''Table in use; retrying assuming it is being created.'' e
                         table w1))
               else if isErrorType e ''ResourceNotFoundException'' then
                 Some (Inl conflict, w1)
               else Some (Inl e, w1)))"

definition delete ::
  "('w, 'd) platform \<Rightarrow> 'w Context \<Rightarrow> string \<Rightarrow> string \<Rightarrow> string \<Rightarrow> string option \<Rightarrow> 'w \<Rightarrow>
     (thrown + unit) \<times> 'w" where
  "delete P ctx table part key currentRevision w =
     (case dbRequest P (env ctx) ''DeleteItem''
             (DeleteItemInput (tableName ctx table)
                [(''partition'', S_of part), (''key'', S_of key)]
                (if currentRevision \<noteq> None then
                   Some (''revision = :oldRevision'',
                         [('':oldRevision'', \<lparr>S = currentRevision, N = None\<rparr>)])
                 else None)) w of
        (Inr _, w') \<Rightarrow> (Inr (), w')
      | (Inl e, w') \<Rightarrow>
          if isErrorType e ''ConditionalCheckFailedException'' then (Inl conflict, w')
          else if isErrorType e ''ResourceInUseException'' then (Inr (), w')
          else if isErrorType e ''ResourceNotFoundException'' then
            (if truthy currentRevision then (Inl conflict, w') else (Inr (), w'))
          else (Inl e, w'))"

section \<open>A model of the remote service\<close>

text \<open>
  The remote service is not code of this repository. The model below is the store the
  driver's requests describe: named tables of items keyed by partition and key, conditional
  writes, and the error types the driver tests for. It answers at once and it accepts every
  name and key: provisioning delays, throttling and the service's limits on names, keys and
  sizes are left out. It understands the expressions the driver sends and no others.
\<close>

subsection \<open>Decimal numerals\<close>

definition digit :: "nat \<Rightarrow> char" where
  "digit d = ''0123456789'' ! (d mod 10)"

fun digit_value :: "char \<Rightarrow> nat option" where
  "digit_value c = indexOf ''0123456789'' c"

function dec :: "nat \<Rightarrow> string" where
  "dec n = (if n < 10 then [digit n] else dec (n div 10) @ [digit (n mod 10)])"
  by pat_completeness auto
termination
  by (relation "measure id") auto

declare dec.simps [simp del]

fun undec_from :: "nat \<Rightarrow> string \<Rightarrow> nat option" where
  "undec_from a [] = Some a"
| "undec_from a (c # cs) =
     (case digit_value c of None \<Rightarrow> None | Some d \<Rightarrow> undec_from (10 * a + d) cs)"

definition undec :: "string \<Rightarrow> nat option" where
  "undec s = (if s = [] then None else undec_from 0 s)"

subsection \<open>The store\<close>

type_synonym rows = "((string \<times> string) \<times> item) list"

record dynamo =
  tables :: "(string \<times> rows) list"
  served :: "http_call list"
  uuids :: "nat \<Rightarrow> string"
  drawn :: nat
  calendar :: "nat \<Rightarrow> string"
  time :: nat

definition service_error :: "nat \<Rightarrow> string \<Rightarrow> thrown" where
  "service_error st name = ResponseError st (JsonBody (Some (TypeString name)))"

definition ResourceNotFound :: thrown where
  "ResourceNotFound =
     service_error 400 ''com.amazonaws.dynamodb.v20120810#ResourceNotFoundException''"

definition ResourceInUse :: thrown where
  "ResourceInUse =
     service_error 400 ''com.amazonaws.dynamodb.v20120810#ResourceInUseException''"

definition ConditionalCheckFailed :: thrown where
  "ConditionalCheckFailed =
     service_error 400 ''com.amazonaws.dynamodb.v20120810#ConditionalCheckFailedException''"

definition ValidationError :: thrown where
  "ValidationError = service_error 400 ''com.amazon.coral.validate#ValidationException''"

definition UnknownOperation :: thrown where
  "UnknownOperation = service_error 400 ''com.amazon.coral.service#UnknownOperationException''"

definition no_content :: Response where
  "no_content = \<lparr>Item = None, Items = None, LastEvaluatedKey = None\<rparr>"

text \<open>An attribute on the wire has exactly one type tag.\<close>

definition well_typed :: "AttributeValue \<Rightarrow> bool" where
  "well_typed a = ((S a = None) \<noteq> (N a = None))"

definition operation :: "request_body \<Rightarrow> string" where
  "operation b =
     (case b of
        PutItemInput _ _ _ \<Rightarrow> ''PutItem''
      | GetItemInput _ _ \<Rightarrow> ''GetItem''
      | QueryInput _ _ _ \<Rightarrow> ''Query''
      | UpdateItemInput _ _ _ _ _ \<Rightarrow> ''UpdateItem''
      | DeleteItemInput _ _ _ \<Rightarrow> ''DeleteItem''
      | CreateTableInput _ _ _ _ \<Rightarrow> ''CreateTable'')"

text \<open>The primary key of an item or of a \<open>Key\<close> object.\<close>

definition primary_key :: "item \<Rightarrow> (string \<times> string) option" where
  "primary_key it =
     (case attr_S it ''partition'' of
        None \<Rightarrow> None
      | Some p \<Rightarrow> (case attr_S it ''key'' of None \<Rightarrow> None | Some k \<Rightarrow> Some (p, k)))"

text \<open>\<open>ADD name :v\<close> on a number attribute.\<close>

definition add_number :: "AttributeValue option \<Rightarrow> AttributeValue \<Rightarrow> AttributeValue option" where
  "add_number old v =
     (case Option.bind (N v) undec of
        None \<Rightarrow> None
      | Some d \<Rightarrow>
          (case old of
             None \<Rightarrow> Some (N_of (dec d))
           | Some a \<Rightarrow>
               (case Option.bind (N a) undec of
                  None \<Rightarrow> None
                | Some n \<Rightarrow> Some (N_of (dec (n + d))))))"

text \<open>The key conditions of \<open>queryFromRange\<close>, read back: the partition and a test on keys.\<close>

definition expr_S :: "(string \<times> expr_value) list \<Rightarrow> string \<Rightarrow> string option" where
  "expr_S vs name = (case map_of vs name of Some (Attr a) \<Rightarrow> S a | _ \<Rightarrow> None)"

definition key_test :: "KeyCondition \<Rightarrow> (string \<times> (string \<Rightarrow> bool)) option" where
  "key_test q =
     (let vs = ExpressionAttributeValues q; e = KeyConditionExpression q in
        if EmptyString \<in> snd ` set vs then None
        else
          (case expr_S vs '':p'' of
             None \<Rightarrow> None
           | Some p \<Rightarrow>
               if e = ''#p = :p'' then Some (p, \<lambda>k. True)
               else if e = ''#p = :p AND begins_with(#k, :withPrefix)'' then
                 map_option (\<lambda>s. (p, prefix s)) (expr_S vs '':withPrefix'')
               else if e = ''#p = :p and #k between :after and :before'' then
                 (case (expr_S vs '':after'', expr_S vs '':before'') of
                    (Some a, Some b) \<Rightarrow> Some (p, \<lambda>k. a \<le> k \<and> k \<le> b)
                  | _ \<Rightarrow> None)
               else if e = ''#p = :p and :after <= #k'' then
                 map_option (\<lambda>a. (p, \<lambda>k. a \<le> k)) (expr_S vs '':after'')
               else if e = ''#p = :p and #k < :before'' then
                 map_option (\<lambda>b. (p, \<lambda>k. k < b)) (expr_S vs '':before'')
               else None))"

definition dynamo_reply ::
  "request_body \<Rightarrow> (string \<times> rows) list \<Rightarrow> (thrown + Response) \<times> (string \<times> rows) list" where
  "dynamo_reply b ts =
     (case b of
        CreateTableInput tn defs schema billing \<Rightarrow>
          (case map_of ts tn of
             Some _ \<Rightarrow> (Inl ResourceInUse, ts)
           | None \<Rightarrow> (Inr no_content, AList.update tn [] ts))
      | PutItemInput tn it cond \<Rightarrow>
          (case map_of ts tn of
             None \<Rightarrow> (Inl ResourceNotFound, ts)
           | Some rs \<Rightarrow>
               (case primary_key it of
                  None \<Rightarrow> (Inl ValidationError, ts)
                | Some pk \<Rightarrow>
                    if list_all (\<lambda>(n, a). well_typed a) it
                       \<and> cond = ''attribute_not_exists(revision)'' then
                      (if Option.bind (map_of rs pk) (\<lambda>old. map_of old ''revision'') = None then
                         (Inr no_content, AList.update tn (AList.update pk it rs) ts)
                       else (Inl ConditionalCheckFailed, ts))
                    else (Inl ValidationError, ts)))
      | GetItemInput tn k \<Rightarrow>
          (case map_of ts tn of
             None \<Rightarrow> (Inl ResourceNotFound, ts)
           | Some rs \<Rightarrow>
               (case primary_key k of
                  None \<Rightarrow> (Inl ValidationError, ts)
                | Some pk \<Rightarrow> (Inr (no_content\<lparr>Item := map_of rs pk\<rparr>), ts)))
      | UpdateItemInput tn k upd cond vs \<Rightarrow>
          (case map_of ts tn of
             None \<Rightarrow> (Inl ResourceNotFound, ts)
           | Some rs \<Rightarrow>
               (case (primary_key k, map_of vs '':one'', map_of vs '':oldRevision'',
                      map_of vs '':newRevision'', map_of vs '':now'', map_of vs '':document'') of
                  (Some pk, Some one, Some old, Some new, Some now, Some d) \<Rightarrow>
                    if list_all (\<lambda>(n, a). well_typed a) vs
                       \<and> upd = ''ADD seq :one SET revision = :newRevision, updated = :now, document = :document''
                       \<and> cond = ''revision = :oldRevision'' then
                      (case map_of rs pk of
                         None \<Rightarrow> (Inl ConditionalCheckFailed, ts)
                       | Some it \<Rightarrow>
                           if map_of it ''revision'' = Some old then
                             (case add_number (map_of it ''seq'') one of
                                None \<Rightarrow> (Inl ValidationError, ts)
                              | Some sq \<Rightarrow>
                                  (Inr no_content,
                                   AList.update tn
                                     (AList.update pk
                                        (AList.update ''document'' d
                                           (AList.update ''updated'' now
                                              (AList.update ''revision'' new
                                                 (AList.update ''seq'' sq it)))) rs) ts))
                           else (Inl ConditionalCheckFailed, ts))
                    else (Inl ValidationError, ts)
                | _ \<Rightarrow> (Inl ValidationError, ts)))
      | DeleteItemInput tn k cond \<Rightarrow>
          (case map_of ts tn of
             None \<Rightarrow> (Inl ResourceNotFound, ts)
           | Some rs \<Rightarrow>
               (case primary_key k of
                  None \<Rightarrow> (Inl ValidationError, ts)
                | Some pk \<Rightarrow>
                    (case cond of
                       None \<Rightarrow> (Inr no_content, AList.update tn (AList.delete pk rs) ts)
                     | Some (c, vs) \<Rightarrow>
                         (case map_of vs '':oldRevision'' of
                            None \<Rightarrow> (Inl ValidationError, ts)
                          | Some old \<Rightarrow>
                              if well_typed old \<and> c = ''revision = :oldRevision'' then
                                (if Option.bind (map_of rs pk) (\<lambda>it. map_of it ''revision'')
                                    = Some old then
                                   (Inr no_content, AList.update tn (AList.delete pk rs) ts)
                                 else (Inl ConditionalCheckFailed, ts))
                              else (Inl ValidationError, ts)))))
      | QueryInput tn start q \<Rightarrow>
          (case map_of ts tn of
             None \<Rightarrow> (Inl ResourceNotFound, ts)
           | Some rs \<Rightarrow>
               (case key_test q of
                  None \<Rightarrow> (Inl ValidationError, ts)
                | Some (p, t) \<Rightarrow>
                    (Inr (no_content
                           \<lparr>Items :=
                              Some (map snd
                                (sort_key (\<lambda>(pk, it). snd pk)
                                   (filter
                                      (\<lambda>(pk, it). fst pk = p \<and> t (snd pk)
                                         \<and> (case Option.bind start primary_key of
                                              None \<Rightarrow> True
                                            | Some sk \<Rightarrow> snd sk < snd pk))
                                      rs)))\<rparr>), ts))))"

definition dynamo_fetch :: "http_call \<Rightarrow> dynamo \<Rightarrow> (thrown + Response) \<times> dynamo" where
  "dynamo_fetch call w =
     (let w' = w\<lparr>served := served w @ [call]\<rparr> in
        if map_of (headers call) ''X-Amz-Target''
           = Some (''DynamoDB_20120810.'' @ operation (http_body call)) then
          (case dynamo_reply (http_body call) (tables w) of
             (r, ts) \<Rightarrow> (r, w'\<lparr>tables := ts\<rparr>))
        else (Inl UnknownOperation, w'))"

text \<open>
  The platform over this store: tokens are drawn from the sequence \<open>uuids\<close>, the clock
  reads \<open>calendar\<close> at the current time and the timer advances it; \<open>new URL\<close> and the
  JSON functions on documents are parameters.
\<close>

definition dynamo_platform ::
  "(string \<Rightarrow> URL option) \<Rightarrow> ('d \<Rightarrow> thrown + string option) \<Rightarrow> (string \<Rightarrow> 'd option) \<Rightarrow>
     (dynamo, 'd) platform" where
  "dynamo_platform url stringify parse =
     \<lparr>new_URL = url,
      fetchJson = dynamo_fetch,
      randomUUID = (\<lambda>w. (uuids w (drawn w), w\<lparr>drawn := Suc (drawn w)\<rparr>)),
      toISOString = (\<lambda>w. calendar w (time w)),
      setTimeout = (\<lambda>ms w. w\<lparr>time := time w + ms\<rparr>),
      JSON_stringify = stringify,
      JSON_parse = parse\<rparr>"

subsection \<open>A scripted remote\<close>

text \<open>
  A transport that answers from a list of prepared replies and records the calls it is
  given; for running the driver against replies the store above never gives. Documents are
  numbers or the empty object.
\<close>

datatype doc = Num nat | EmptyObject

text \<open>
  A stand-in for \<open>new URL\<close> on the URLs the driver builds, \<open>https://host/\<close>: it accepts
  a non-empty host of letters, digits, hyphens and dots without a punycode label, and puts
  the host in lower case; every other string is refused.
\<close>

definition to_lower :: "char \<Rightarrow> char" where
  "to_lower c =
     (case map_of (zip ''ABCDEFGHIJKLMNOPQRSTUVWXYZ'' ''abcdefghijklmnopqrstuvwxyz'') c of
        None \<Rightarrow> c
      | Some l \<Rightarrow> l)"

definition url_model :: "string \<Rightarrow> URL option" where
  "url_model s =
     (if prefix ''https://'' s then
        (let rest = drop 8 s;
             host = map to_lower (takeWhile (\<lambda>c. c \<noteq> CHR ''/'') rest);
             path = dropWhile (\<lambda>c. c \<noteq> CHR ''/'') rest
         in
           if host \<noteq> [] \<and> list_all (\<lambda>c. c \<in> set ''abcdefghijklmnopqrstuvwxyz0123456789-.'') host
              \<and> \<not> includes_str host ''xn--'' \<and> path = ''/'' then
             Some \<lparr>href = ''https://'' @ host @ path, hostname = host, pathname = path,
                   searchParams = []\<rparr>
           else None)
      else None)"

fun doc_stringify :: "doc \<Rightarrow> thrown + string option" where
  "doc_stringify (Num n) = Inr (Some (dec n))"
| "doc_stringify EmptyObject = Inr (Some ''{}'')"

definition doc_parse :: "string \<Rightarrow> doc option" where
  "doc_parse s = (if s = ''{}'' then Some EmptyObject else map_option Num (undec s))"

record script =
  replies :: "(thrown + Response) list"
  sent :: "http_call list"

definition script_platform :: "(script, doc) platform" where
  "script_platform =
     \<lparr>new_URL = url_model,
      fetchJson =
        (\<lambda>call w.
           (case replies w of
              [] \<Rightarrow> (Inl (Error ''fetch failed'' None), w\<lparr>sent := sent w @ [call]\<rparr>)
            | r # rs \<Rightarrow> (r, \<lparr>replies = rs, sent = sent w @ [call]\<rparr>))),
      randomUUID = (\<lambda>w. (''6f1c2d3e-4a5b-4c6d-8e7f-901a2b3c4d5e'', w)),
      toISOString = (\<lambda>w. ''2024-01-01T00:00:00.000Z''),
      setTimeout = (\<lambda>ms w. w),
      JSON_stringify = doc_stringify,
      JSON_parse = doc_parse\<rparr>"

text \<open>A context with credentials and no logger.\<close>

definition test_env :: Environment where
  "test_env =
     [''AWS_REGION'' \<mapsto> ''eu-west-1'', ''AWS_ACCESS_KEY_ID'' \<mapsto> ''AKIAEXAMPLE'',
      ''AWS_SECRET_ACCESS_KEY'' \<mapsto> ''secret'', ''TABLE_PREFIX'' \<mapsto> ''DocsTests.'']"

definition test_context :: "'w Context" where
  "test_context = \<lparr>env = Some test_env, log = None, signal = None\<rparr>"

text \<open>Sample data: a page of items with given keys, the records they decode to, and a
  process whose environment holds all four credential variables.\<close>

definition sample_item :: "string \<Rightarrow> item" where
  "sample_item k =
     [(''partition'', S_of ''p''), (''key'', S_of k), (''revision'', S_of ''0a''),
      (''seq'', N_of ''0''), (''document'', S_of ''{}'')]"

definition sample_page :: "string list \<Rightarrow> thrown + Response" where
  "sample_page ks = Inr \<lparr>Item = None, Items = Some (map sample_item ks), LastEvaluatedKey = None\<rparr>"

definition sample_record :: "string \<Rightarrow> doc DocRecord" where
  "sample_record k =
     \<lparr>rec_partition = ''p'', rec_key = k, rec_revision = Some ''0a'', rec_document = EmptyObject\<rparr>"

definition sample_process :: process where
  "sample_process =
     \<lparr>process_env =
        [''AWS_REGION'' \<mapsto> ''eu-west-1'', ''AWS_ACCESS_KEY_ID'' \<mapsto> ''AKIAEXAMPLE'',
         ''AWS_SECRET_ACCESS_KEY'' \<mapsto> ''secret'', ''AWS_SESSION_TOKEN'' \<mapsto> ''token''],
      cachedConfigLines = None, files = Map.empty, homedir = ''/home/user''\<rparr>"

text \<open>
  The context carries the three credentials \<open>dbRequest\<close> requires, and \<open>new URL\<close> accepts
  the endpoint its region gives.
\<close>

definition has_credentials :: "(string \<Rightarrow> URL option) \<Rightarrow> 'w Context \<Rightarrow> bool" where
  "has_credentials url ctx =
     (case env ctx of
        None \<Rightarrow> False
      | Some m \<Rightarrow>
          (case m ''AWS_REGION'' of
             None \<Rightarrow> False
           | Some r \<Rightarrow> url (''https://dynamodb.'' @ r @ ''.amazonaws.com/'') \<noteq> None)
          \<and> m ''AWS_ACCESS_KEY_ID'' \<noteq> None
          \<and> m ''AWS_SECRET_ACCESS_KEY'' \<noteq> None)"

text \<open>The record the store holds under an identity, and the number in its \<open>seq\<close>.\<close>

definition stored :: "dynamo \<Rightarrow> string \<Rightarrow> string \<Rightarrow> string \<Rightarrow> item option" where
  "stored w tn part key = Option.bind (map_of (tables w) tn) (\<lambda>rs. map_of rs (part, key))"

definition seq_of :: "item \<Rightarrow> nat option" where
  "seq_of it = Option.bind (map_of it ''seq'') (\<lambda>a. Option.bind (N a) undec)"

text \<open>A store with one table that holds one record, under the key \<open>k1\<close>.\<close>

definition sample_store :: dynamo where
  "sample_store =
     \<lparr>tables = [(''DocsTests.t'', [((''p'', ''k1''), sample_item ''k1'')])],
      served = [],
      uuids = (\<lambda>n. ''6f1c2d3e-4a5b-4c6d-8e7f-901a2b3c4d5e''),
      drawn = 0,
      calendar = (\<lambda>t. ''2024-01-01T00:00:00.000Z''),
      time = 0\<rparr>"

text \<open>
  The same store, with the record's revision equal to the token the next \<open>randomUUID\<close>
  gives.
\<close>

definition colliding_store :: dynamo where
  "colliding_store =
     sample_store
       \<lparr>tables :=
          [(''DocsTests.t'',
            [((''p'', ''k1''),
              [(''partition'', S_of ''p''), (''key'', S_of ''k1''),
               (''revision'', S_of ''6f1c2d3e4a5b4c6d8e7f901a2b3c4d5e''),
               (''seq'', N_of ''0''), (''document'', S_of ''{}'')])])]\<rparr>"

text \<open>
  A platform whose transport is handed every call with the signal removed, and the relation
  between two platform and context pairs that differ at most in what the transport does
  with a signal and in the signal the context holds.
\<close>

definition without_signal :: "('w, 'd) platform \<Rightarrow> ('w, 'd) platform" where
  "without_signal P = P\<lparr>fetchJson := \<lambda>call. fetchJson P (call\<lparr>init_signal := None\<rparr>)\<rparr>"

definition same_driver_view ::
  "('w, 'd) platform \<Rightarrow> 'w Context \<Rightarrow> ('w, 'd) platform \<Rightarrow> 'w Context \<Rightarrow> bool" where
  "same_driver_view P1 c1 P2 c2 =
     (env c1 = env c2 \<and> log c1 = log c2 \<and> new_URL P1 = new_URL P2
      \<and> (\<forall>call. fetchJson P1 (call\<lparr>init_signal := None\<rparr>)
                 = fetchJson P2 (call\<lparr>init_signal := None\<rparr>))
      \<and> randomUUID P1 = randomUUID P2 \<and> toISOString P1 = toISOString P2
      \<and> setTimeout P1 = setTimeout P2 \<and> JSON_stringify P1 = JSON_stringify P2
      \<and> JSON_parse P1 = JSON_parse P2)"

section \<open>Running the driver: helper facts\<close>

lemma isErrorType_service_errors:
  "isErrorType ResourceNotFound ''ResourceNotFoundException''"
  "\<not> isErrorType ResourceNotFound ''ResourceInUseException''"
  "\<not> isErrorType ResourceNotFound ''ConditionalCheckFailedException''"
  "isErrorType ResourceInUse ''ResourceInUseException''"
  "\<not> isErrorType ResourceInUse ''ResourceNotFoundException''"
  "\<not> isErrorType ResourceInUse ''ConditionalCheckFailedException''"
  "isErrorType ConditionalCheckFailed ''ConditionalCheckFailedException''"
  "\<not> isErrorType ConditionalCheckFailed ''ResourceNotFoundException''"
  "\<not> isErrorType ConditionalCheckFailed ''ResourceInUseException''"
  "\<not> isErrorType ValidationError ''ConditionalCheckFailedException''"
  "\<not> isErrorType ValidationError ''ResourceNotFoundException''"
  "\<not> isErrorType ValidationError ''ResourceInUseException''"
  by (simp_all add: isErrorType_def ResourceNotFound_def ResourceInUse_def
      ConditionalCheckFailed_def ValidationError_def service_error_def)

lemma isErrorType_Error [simp]: "\<not> isErrorType (Error m st) ty" "\<not> isErrorType SyntaxError ty"
  by (simp_all add: isErrorType_def)

lemma url_model_test:
  "url_model ''https://dynamodb.eu-west-1.amazonaws.com/''
     = Some \<lparr>href = ''https://dynamodb.eu-west-1.amazonaws.com/'',
             hostname = ''dynamodb.eu-west-1.amazonaws.com'', pathname = ''/'',
             searchParams = []\<rparr>"
  by code_simp

lemma new_URL_script [simp]: "new_URL script_platform = url_model"
  by (simp add: script_platform_def)

lemma dbRequest_test_env:
  "new_URL P = url_model \<Longrightarrow>
   dbRequest P (Some test_env) target b w =
     fetchJson P
       \<lparr>credentials = \<lparr>AWS_REGION = ''eu-west-1'', AWS_ACCESS_KEY_ID = ''AKIAEXAMPLE'',
           AWS_SECRET_ACCESS_KEY = ''secret'', AWS_SESSION_TOKEN = None\<rparr>,
        uri = ''https://dynamodb.eu-west-1.amazonaws.com/'',
        http_method = ''POST'', sign_path = ''/'', sign_query = [],
        headers = [(''host'', ''dynamodb.eu-west-1.amazonaws.com''), (''content-type'', ''application/json''),
              (''accept'', ''application/json''), (''X-Amz-Target'', ''DynamoDB_20120810.'' @ target)],
        http_body = b, init_signal = None\<rparr> w"
  by (simp add: dbRequest_def awsStringRequest_def test_env_def url_model_test)

text \<open>When \<open>new URL\<close> refuses the endpoint, \<open>dbRequest\<close> throws and nothing is sent.\<close>

lemma dbRequest_invalid_URL:
  assumes "e = Some m" and "m ''AWS_REGION'' = Some r" and "m ''AWS_ACCESS_KEY_ID'' = Some k"
    and "m ''AWS_SECRET_ACCESS_KEY'' = Some s"
    and "new_URL P (''https://dynamodb.'' @ r @ ''.amazonaws.com/'') = None"
  shows "dbRequest P e target b w = (Inl TypeError, w)"
  using assms by (simp add: dbRequest_def awsStringRequest_def)

lemma script_fetch:
  "fetchJson script_platform call \<lparr>replies = r # rs, sent = cs\<rparr> = (r, \<lparr>replies = rs, sent = cs @ [call]\<rparr>)"
  by (simp add: script_platform_def)

lemma env_test_context [simp]: "env test_context = Some test_env"
  by (simp add: test_context_def)

section \<open>Point lookup\<close>

text \<open>
  C6. \<open>get\<close> fails with the NotFound error, whose status is 404, in exactly three
  situations: the remote call fails with an error of type ResourceNotFoundException, it
  fails with one of type ResourceInUseException, or it succeeds and the response has no
  item. Every other error of the call is rethrown as it is (among them an error that is
  itself equal to the NotFound error). Here \<open>r\<close> is the outcome of the one remote call and
  \<open>w'\<close> the world after it.
\<close>

theorem get_notFound:
  assumes "dbRequest P (env ctx) ''GetItem''
             (GetItemInput (tableName ctx table) [(''partition'', S_of part), (''key'', S_of key)]) w
           = (r, w')"
  shows "status notFound = Some 404 \<and>
         (get P ctx table part key w = (Inl notFound, w') \<longleftrightarrow>
            (\<exists>e. r = Inl e \<and> (isErrorType e ''ResourceNotFoundException''
                              \<or> isErrorType e ''ResourceInUseException'' \<or> e = notFound))
            \<or> (\<exists>res. r = Inr res \<and> Item res = None)) \<and>
         (\<forall>e. r = Inl e \<longrightarrow> \<not> isErrorType e ''ResourceNotFoundException''
               \<longrightarrow> \<not> isErrorType e ''ResourceInUseException''
               \<longrightarrow> get P ctx table part key w = (Inl e, w'))"
  using assms
  by (cases r) (auto simp: get_def get_catch_def notFound_def isErrorType_def split: option.splits)

theorem get_notFound_witness:
  "get script_platform test_context ''t'' ''p'' ''k'' \<lparr>replies = [Inl ResourceNotFound], sent = []\<rparr>
     = (Inl notFound,
        snd (dbRequest script_platform (env test_context) ''GetItem''
             (GetItemInput (tableName (test_context :: script Context) ''t'') [(''partition'', S_of ''p''), (''key'', S_of ''k'')])
             \<lparr>replies = [Inl ResourceNotFound], sent = []\<rparr>))
   \<and> get script_platform test_context ''t'' ''p'' ''k''
        \<lparr>replies = [Inr \<lparr>Item = None, Items = None, LastEvaluatedKey = None\<rparr>], sent = []\<rparr>
     = (Inl notFound,
        snd (dbRequest script_platform (env test_context) ''GetItem''
             (GetItemInput (tableName (test_context :: script Context) ''t'') [(''partition'', S_of ''p''), (''key'', S_of ''k'')])
             \<lparr>replies = [Inr \<lparr>Item = None, Items = None, LastEvaluatedKey = None\<rparr>], sent = []\<rparr>))
   \<and> get script_platform test_context ''t'' ''p'' ''k'' \<lparr>replies = [Inl ValidationError], sent = []\<rparr>
     = (Inl ValidationError,
        snd (dbRequest script_platform (env test_context) ''GetItem''
             (GetItemInput (tableName (test_context :: script Context) ''t'') [(''partition'', S_of ''p''), (''key'', S_of ''k'')])
             \<lparr>replies = [Inl ValidationError], sent = []\<rparr>))
   \<and> status notFound = Some 404"
proof -
  let ?req = "GetItemInput (tableName (test_context :: script Context) ''t'') [(''partition'', S_of ''p''), (''key'', S_of ''k'')]"
  have d: "\<And>r. dbRequest script_platform (env test_context) ''GetItem'' ?req \<lparr>replies = [r], sent = []\<rparr>
     = (r, snd (dbRequest script_platform (env test_context) ''GetItem'' ?req \<lparr>replies = [r], sent = []\<rparr>))"
    by (simp add: dbRequest_test_env script_fetch)
  show ?thesis
    using get_notFound[OF d[of "Inl ResourceNotFound"]]
      get_notFound[OF d[of "Inr \<lparr>Item = None, Items = None, LastEvaluatedKey = None\<rparr>"]]
      get_notFound[OF d[of "Inl ValidationError"]]
    by (simp add: isErrorType_service_errors)
qed

lemma tableName_test: "tableName test_context t = ''DocsTests.'' @ t"
  by (simp add: tableName_def test_context_def test_env_def)

lemma queryFromRange_None:
  "queryFromRange part None =
     Inr \<lparr>KeyConditionExpression = ''#p = :p'',
          ExpressionAttributeNames = [(''#p'', ''partition'')],
          ExpressionAttributeValues = [('':p'', Attr (S_of part))]\<rparr>"
  by (simp add: queryFromRange_def)

section \<open>Scans of a missing table\<close>

text \<open>
  C7. When the query of a scan fails with an error of type ResourceNotFoundException or
  ResourceInUseException, the scan yields nothing from there on and returns without an
  error; on the first query that is the empty sequence an empty partition gives. Any other
  error of the query is thrown out of the sequence, unchanged. The statement holds for the
  query at any cursor, so at any page of a scan; \<open>q\<close> is the key condition of a supported
  range.
\<close>

theorem getPartition_table_missing:
  assumes "queryFromRange part rng = Inr q"
    and "dbRequest P (env ctx) ''Query'' (QueryInput (tableName ctx table) cursor q) w = (Inl e, w')"
  shows "(isErrorType e ''ResourceNotFoundException'' \<or> isErrorType e ''ResourceInUseException''
            \<longrightarrow> getPartition_from P ctx table part rng (Suc pages) cursor w = ([], Returned, w')
              \<and> (cursor = None \<longrightarrow> getPartition P ctx table part rng (Suc pages) w = ([], Returned, w')))
       \<and> (\<not> isErrorType e ''ResourceNotFoundException''
            \<longrightarrow> \<not> isErrorType e ''ResourceInUseException''
            \<longrightarrow> getPartition_from P ctx table part rng (Suc pages) cursor w = ([], Threw e, w')
              \<and> (cursor = None \<longrightarrow> getPartition P ctx table part rng (Suc pages) w = ([], Threw e, w')))"
  using assms by (auto simp: getPartition_def getPartition_catch_def)

theorem getPartition_table_missing_witness:
  "getPartition script_platform test_context ''t'' ''p'' None 3
      \<lparr>replies = [Inl ResourceNotFound], sent = []\<rparr>
     = ([], Returned,
        snd (dbRequest script_platform (env (test_context :: script Context)) ''Query''
               (QueryInput (tableName (test_context :: script Context) ''t'') None
                  \<lparr>KeyConditionExpression = ''#p = :p'',
                    ExpressionAttributeNames = [(''#p'', ''partition'')],
                    ExpressionAttributeValues = [('':p'', Attr (S_of ''p''))]\<rparr>)
               \<lparr>replies = [Inl ResourceNotFound], sent = []\<rparr>))
   \<and> getPartition script_platform test_context ''t'' ''p'' None 3
      \<lparr>replies = [Inl ValidationError], sent = []\<rparr>
     = ([], Threw ValidationError,
        snd (dbRequest script_platform (env (test_context :: script Context)) ''Query''
               (QueryInput (tableName (test_context :: script Context) ''t'') None
                  \<lparr>KeyConditionExpression = ''#p = :p'',
                    ExpressionAttributeNames = [(''#p'', ''partition'')],
                    ExpressionAttributeValues = [('':p'', Attr (S_of ''p''))]\<rparr>)
               \<lparr>replies = [Inl ValidationError], sent = []\<rparr>))"
proof -
  let ?q = "\<lparr>KeyConditionExpression = ''#p = :p'',
             ExpressionAttributeNames = [(''#p'', ''partition'')],
             ExpressionAttributeValues = [('':p'', Attr (S_of ''p''))]\<rparr>"
  let ?req = "QueryInput (tableName (test_context :: script Context) ''t'') None ?q"
  have d: "\<And>e. dbRequest script_platform (env (test_context :: script Context)) ''Query'' ?req
                   \<lparr>replies = [Inl e], sent = []\<rparr>
     = (Inl e, snd (dbRequest script_platform (env (test_context :: script Context)) ''Query'' ?req
                   \<lparr>replies = [Inl e], sent = []\<rparr>))"
    by (simp add: dbRequest_test_env script_fetch)
  show ?thesis
    using getPartition_table_missing[OF queryFromRange_None d[of ResourceNotFound], where pages = 2]
      getPartition_table_missing[OF queryFromRange_None d[of ValidationError], where pages = 2]
    by (simp add: isErrorType_service_errors numeral_3_eq_3)
qed

section \<open>Deleting from a missing table\<close>

text \<open>
  When the remote answers a \<open>delete\<close> with an error of type ResourceNotFoundException (and
  of no type the operation tests before it), the call fails with the Conflict error, whose
  status is 409, if a non-empty \<open>currentRevision\<close> was supplied, and returns normally if
  none was supplied.
\<close>

theorem delete_table_not_found:
  assumes "dbRequest P (env ctx) ''DeleteItem''
             (DeleteItemInput (tableName ctx table) [(''partition'', S_of part), (''key'', S_of key)]
                (if currentRevision \<noteq> None then
                   Some (''revision = :oldRevision'',
                         [('':oldRevision'', \<lparr>S = currentRevision, N = None\<rparr>)])
                 else None)) w = (Inl e, w')"
    and "isErrorType e ''ResourceNotFoundException''"
    and "\<not> isErrorType e ''ConditionalCheckFailedException''"
    and "\<not> isErrorType e ''ResourceInUseException''"
  shows "status conflict = Some 409
       \<and> (truthy currentRevision
            \<longrightarrow> delete P ctx table part key currentRevision w = (Inl conflict, w'))
       \<and> (currentRevision = None
            \<longrightarrow> delete P ctx table part key currentRevision w = (Inr (), w'))"
  using assms by (auto simp: delete_def conflict_def)

theorem delete_table_not_found_witness:
  "fst (delete script_platform test_context ''t'' ''p'' ''k'' (Some ''0af3'')
      \<lparr>replies = [Inl ResourceNotFound], sent = []\<rparr>) = Inl conflict
   \<and> fst (delete script_platform test_context ''t'' ''p'' ''k'' None
      \<lparr>replies = [Inl ResourceNotFound], sent = []\<rparr>) = Inr ()
   \<and> status conflict = Some 409"
proof -
  have d: "\<And>b. dbRequest script_platform (env (test_context :: script Context)) ''DeleteItem'' b
                   \<lparr>replies = [Inl ResourceNotFound], sent = []\<rparr>
     = (Inl ResourceNotFound, snd (dbRequest script_platform (env (test_context :: script Context)) ''DeleteItem'' b
                   \<lparr>replies = [Inl ResourceNotFound], sent = []\<rparr>))"
    by (simp add: dbRequest_test_env script_fetch)
  show ?thesis
    using delete_table_not_found[where P = script_platform and ctx = "test_context :: script Context"
          and table = "''t''" and part = "''p''" and key = "''k''"
          and currentRevision = "Some ''0af3''",
          OF d isErrorType_service_errors(1) isErrorType_service_errors(3)
          isErrorType_service_errors(2)]
      delete_table_not_found[where P = script_platform and ctx = "test_context :: script Context"
          and table = "''t''" and part = "''p''" and key = "''k''"
          and currentRevision = None,
          OF d isErrorType_service_errors(1) isErrorType_service_errors(3)
          isErrorType_service_errors(2)]
    by simp
qed

lemma yield_items_keys:
  "r \<in> set (fst (yield_items P rng its)) \<Longrightarrow>
     rec_key r \<noteq> [] \<and> (rng \<noteq> None \<longrightarrow> matchRange rng (rec_key r))"
proof (induction its)
  case Nil
  then show ?case by simp
next
  case (Cons it rest)
  then show ?case
    by (cases "attr_S it ''key''")
      (auto simp: Let_def split: if_splits option.splits prod.splits)
qed

lemma getPartition_from_keys:
  "r \<in> set (fst (getPartition_from P ctx table part rng pages cursor w)) \<Longrightarrow>
     rec_key r \<noteq> [] \<and> (rng \<noteq> None \<longrightarrow> matchRange rng (rec_key r))"
proof (induction pages arbitrary: cursor w)
  case 0
  then show ?case by simp
next
  case (Suc pages)
  show ?case
  proof (cases "queryFromRange part rng")
    case (Inl e)
    with Suc.prems show ?thesis by simp
  next
    case (Inr q)
    obtain x w' where d: "dbRequest P (env ctx) ''Query'' (QueryInput (tableName ctx table) cursor q) w = (x, w')"
      by (cases "dbRequest P (env ctx) ''Query'' (QueryInput (tableName ctx table) cursor q) w")
    show ?thesis
    proof (cases x)
      case (Inl e)
      with Suc.prems Inr d show ?thesis by simp
    next
      case res: (Inr result)
      obtain ys e where y: "yield_items P rng (case Items result of None \<Rightarrow> [] | Some its \<Rightarrow> its) = (ys, e)"
        by (cases "yield_items P rng (case Items result of None \<Rightarrow> [] | Some its \<Rightarrow> its)")
      have ys: "\<And>r. r \<in> set ys \<Longrightarrow> rec_key r \<noteq> [] \<and> (rng \<noteq> None \<longrightarrow> matchRange rng (rec_key r))"
        using yield_items_keys[of _ P rng "case Items result of None \<Rightarrow> [] | Some its \<Rightarrow> its"] y
        by simp
      show ?thesis
      proof (cases e)
        case (Some er)
        with Suc.prems Inr d res y ys show ?thesis by simp
      next
        case None
        show ?thesis
        proof (cases "LastEvaluatedKey result")
          case nk: None
          with Suc.prems Inr d res y ys None show ?thesis by simp
        next
          case (Some k)
          obtain ys' en w'' where n: "getPartition_from P ctx table part rng pages (Some k) w' = (ys', en, w'')"
            by (cases "getPartition_from P ctx table part rng pages (Some k) w'")
          have "r \<in> set ys \<or> r \<in> set ys'"
            using Suc.prems Inr d res y None Some n by simp
          then show ?thesis
            using ys Suc.IH[of "Some k" w'] n by auto
        qed
      qed
    qed
  qed
qed

lemma scan_sample_page:
  "fst (getPartition script_platform test_context ''t'' ''p'' rng (Suc 0)
          \<lparr>replies = [sample_page ks], sent = []\<rparr>)
     = (case queryFromRange ''p'' rng of
          Inl e \<Rightarrow> []
        | Inr q \<Rightarrow> fst (yield_items script_platform rng (map sample_item ks)))"
  by (simp add: getPartition_def dbRequest_test_env script_fetch sample_page_def
      split: prod.splits option.splits sum.splits)

lemma JSON_parse_script [simp]: "JSON_parse script_platform = doc_parse"
  by (simp add: script_platform_def)

lemma attr_S_sample [simp]:
  "attr_S (sample_item k) ''key'' = Some k"
  "attr_S (sample_item k) ''partition'' = Some ''p''"
  "attr_S (sample_item k) ''revision'' = Some ''0a''"
  "attr_S (sample_item k) ''document'' = Some ''{}''"
  by (simp_all add: attr_S_def sample_item_def)

lemma doc_parse_empty [simp]: "doc_parse ''{}'' = Some EmptyObject"
  by (simp add: doc_parse_def)

section \<open>Range filtering\<close>

text \<open>
  C4, as amended. Every record a scan yields, whatever items the remote returns, has a key
  that satisfies the range: for \<open>{withPrefix: s}\<close> the key starts with \<open>s\<close>; for
  \<open>{after, before}\<close> with a non-empty \<open>before\<close> it satisfies \<open>after <= key < before\<close>;
  for \<open>{before}\<close> alone it satisfies \<open>key < before\<close>.
\<close>

theorem getPartition_yields_in_range:
  assumes "r \<in> set (fst (getPartition P ctx table part rng pages w))"
  shows "(\<forall>s. rng = Some (WithPrefix s) \<longrightarrow> prefix s (rec_key r))
       \<and> (\<forall>a b. rng = Some (Bounds (Bound a) (Bound b)) \<longrightarrow> b \<noteq> []
              \<longrightarrow> a \<le> rec_key r \<and> rec_key r < b)
       \<and> (\<forall>a b. rng = Some (Bounds a (Bound b)) \<longrightarrow> bound_value a = None
              \<longrightarrow> rec_key r < b)"
proof -
  have m: "rng \<noteq> None \<longrightarrow> matchRange rng (rec_key r)"
    using assms getPartition_from_keys[of r P ctx table part rng pages None w]
    by (simp add: getPartition_def)
  show ?thesis
    using m by (auto simp: matchRange_def split: if_splits)
qed

theorem getPartition_yields_in_range_witness:
  "sample_record ''a1'' \<in> set (fst (getPartition script_platform test_context ''t'' ''p''
        (Some (WithPrefix ''a'')) (Suc 0)
        \<lparr>replies = [sample_page [''a1'', ''a2'', ''b1'', ''b2'']], sent = []\<rparr>))
   \<and> prefix ''a'' (rec_key (sample_record ''a1''))
   \<and> sample_record ''b1'' \<in> set (fst (getPartition script_platform test_context ''t'' ''p''
        (Some (Bounds (Bound ''a2'') (Bound ''b2''))) (Suc 0)
        \<lparr>replies = [sample_page [''a1'', ''a2'', ''b1'', ''b2'']], sent = []\<rparr>))
   \<and> ''a2'' \<le> rec_key (sample_record ''b1'') \<and> rec_key (sample_record ''b1'') < ''b2''
   \<and> sample_record ''a2'' \<in> set (fst (getPartition script_platform test_context ''t'' ''p''
        (Some (Bounds Absent (Bound ''b1''))) (Suc 0)
        \<lparr>replies = [sample_page [''a1'', ''a2'', ''b1'', ''b2'']], sent = []\<rparr>))
   \<and> rec_key (sample_record ''a2'') < ''b1''"
proof -
  let ?w = "\<lparr>replies = [sample_page [''a1'', ''a2'', ''b1'', ''b2'']], sent = []\<rparr>"
  have 1: "sample_record ''a1'' \<in> set (fst (getPartition script_platform test_context ''t'' ''p''
        (Some (WithPrefix ''a'')) (Suc 0) ?w))"
    by (simp add: scan_sample_page queryFromRange_def matchRange_def sample_record_def)
  have 2: "sample_record ''b1'' \<in> set (fst (getPartition script_platform test_context ''t'' ''p''
        (Some (Bounds (Bound ''a2'') (Bound ''b2''))) (Suc 0) ?w))"
    by (simp add: scan_sample_page queryFromRange_def matchRange_def sample_record_def)
  have 3: "sample_record ''a2'' \<in> set (fst (getPartition script_platform test_context ''t'' ''p''
        (Some (Bounds Absent (Bound ''b1''))) (Suc 0) ?w))"
    by (simp add: scan_sample_page queryFromRange_def matchRange_def sample_record_def)
  show ?thesis
    using 1 2 3 getPartition_yields_in_range[OF 1] getPartition_yields_in_range[OF 2]
      getPartition_yields_in_range[OF 3]
    by simp
qed

text \<open>
  The claim as stated fails when \<open>before\<close> is the empty string: both the query and the
  re-check take a falsy bound for an absent one, so with \<open>{after: 'a', before: ''}\<close> the key
  \<open>b\<close> is yielded although no key is below the empty string.
\<close>

theorem getPartition_empty_before_counterexample:
  "map rec_key (fst (getPartition script_platform test_context ''t'' ''p''
        (Some (Bounds (Bound ''a'') (Bound []))) (Suc 0)
        \<lparr>replies = [sample_page [''b'']], sent = []\<rparr>)) = [''b'']
   \<and> \<not> (''a'' \<le> ''b'' \<and> ''b'' < ([]::string))"
  by (simp add: scan_sample_page queryFromRange_def matchRange_def)

text \<open>
  C5. With the range \<open>{after: a}\<close> the re-check is claimed to accept a key exactly when
  \<open>a <= key\<close>. For \<open>a = ''\<close> the code does otherwise: every key is at or above the empty
  string, yet \<open>matchRange\<close> rejects every key, and a scan yields nothing from a page that
  holds the key \<open>x\<close>, while \<open>queryFromRange\<close> for the same range asks the remote for the
  whole partition.
\<close>

theorem matchRange_after_empty:
  "matchRange (Some (Bounds (Bound []) Absent)) ''x'' = False
   \<and> ([]::string) \<le> ''x''
   \<and> fst (getPartition script_platform test_context ''t'' ''p''
        (Some (Bounds (Bound []) Absent)) (Suc 0)
        \<lparr>replies = [sample_page [''x'']], sent = []\<rparr>) = []
   \<and> map_option KeyConditionExpression
        (case queryFromRange ''p'' (Some (Bounds (Bound []) Absent)) of
           Inl e \<Rightarrow> None | Inr q \<Rightarrow> Some q) = Some ''#p = :p''"
  by (simp add: scan_sample_page queryFromRange_def matchRange_def)

text \<open>
  For every non-empty \<open>a\<close> the re-check of the range \<open>{after: a}\<close> accepts a key exactly
  when \<open>a <= key\<close>.
\<close>

theorem matchRange_after_nonempty:
  "a \<noteq> [] \<Longrightarrow> matchRange (Some (Bounds (Bound a) Absent)) k = (a \<le> k)"
  by (simp add: matchRange_def)

theorem matchRange_after_nonempty_witness:
  "matchRange (Some (Bounds (Bound ''a2'') Absent)) ''b1''
   \<and> \<not> matchRange (Some (Bounds (Bound ''a2'') Absent)) ''a1''"
  using matchRange_after_nonempty[of "''a2''" "''b1''"]
    matchRange_after_nonempty[of "''a2''" "''a1''"]
  by simp

section \<open>Credentials from the environment\<close>

text \<open>
  C9. With region, access key id, secret key and session token all in the environment,
  \<open>localAwsEnv\<close> returns the first three, leaves the process as it was (the credentials
  file is not read), and returns no session token: the fast path reads the token and drops
  it.
\<close>

theorem localAwsEnv_drops_session_token:
  "process_env sample_process ''AWS_SESSION_TOKEN'' = Some ''token''
   \<and> localAwsEnv None None sample_process
     = (Inr \<lparr>AWS_REGION = ''eu-west-1'', AWS_ACCESS_KEY_ID = ''AKIAEXAMPLE'',
             AWS_SECRET_ACCESS_KEY = ''secret'', AWS_SESSION_TOKEN = None\<rparr>, sample_process)"
  by (simp add: sample_process_def)

section \<open>The abort signal\<close>

text \<open>
  Two platform and context pairs that differ only in what the transport does with a signal
  and in the signal of the context give the same result for every operation.
\<close>

lemma view_sym: "same_driver_view P1 c1 P2 c2 \<Longrightarrow> same_driver_view P2 c2 P1 c1"
  by (simp add: same_driver_view_def)

lemma view_without_signal: "same_driver_view (without_signal P) (ctx\<lparr>signal := sg\<rparr>) P ctx"
  by (simp add: same_driver_view_def without_signal_def)

lemma awsStringRequest_view:
  assumes "same_driver_view P1 c1 P2 c2"
  shows "awsStringRequest P1 e m s p b c t w = awsStringRequest P2 e m s p b c t w"
proof -
  have "\<And>call. init_signal call = None \<Longrightarrow> fetchJson P1 call = fetchJson P2 call"
  proof -
    fix call :: http_call assume "init_signal call = None"
    then have "call = call\<lparr>init_signal := None\<rparr>" by simp
    then show "fetchJson P1 call = fetchJson P2 call"
      using assms unfolding same_driver_view_def by metis
  qed
  moreover have "new_URL P1 = new_URL P2"
    using assms by (simp add: same_driver_view_def)
  ultimately show ?thesis
    unfolding awsStringRequest_def by (simp split: option.splits)
qed

lemma dbRequest_view:
  assumes "same_driver_view P1 c1 P2 c2"
  shows "dbRequest P1 e t b w = dbRequest P2 e t b w"
  unfolding dbRequest_def by (simp only: awsStringRequest_view[OF assms])

lemma tableName_view: "same_driver_view P1 c1 P2 c2 \<Longrightarrow> tableName c1 t = tableName c2 t"
  by (simp add: same_driver_view_def tableName_def)

lemma debug_view: "same_driver_view P1 c1 P2 c2 \<Longrightarrow> debug c1 = debug c2"
  by (auto simp add: same_driver_view_def debug_def fun_eq_iff)

lemma createTable_view:
  assumes "same_driver_view P1 c1 P2 c2"
  shows "createTable P1 c1 t w = createTable P2 c2 t w"
proof -
  have "env c1 = env c2" using assms by (simp add: same_driver_view_def)
  then show ?thesis
    unfolding createTable_def
    by (simp only: dbRequest_view[OF assms] tableName_view[OF assms])
qed

lemma add_try_view:
  assumes "same_driver_view P1 c1 P2 c2"
  shows "add_try P1 c1 t p k d rv w = add_try P2 c2 t p k d rv w"
proof -
  have "toISOString P1 = toISOString P2" "JSON_stringify P1 = JSON_stringify P2"
    "env c1 = env c2"
    using assms by (simp_all add: same_driver_view_def)
  then show ?thesis
    unfolding add_try_def
    by (simp only: dbRequest_view[OF assms] tableName_view[OF assms])
qed

lemma update_try_view:
  assumes "same_driver_view P1 c1 P2 c2"
  shows "update_try P1 c1 t p k cr d rv w = update_try P2 c2 t p k cr d rv w"
proof -
  have "toISOString P1 = toISOString P2" "JSON_stringify P1 = JSON_stringify P2"
    "env c1 = env c2"
    using assms by (simp_all add: same_driver_view_def)
  then show ?thesis
    unfolding update_try_def
    by (simp only: dbRequest_view[OF assms] tableName_view[OF assms])
qed

lemma add_view_Some:
  assumes a: "add P1 c1 t p k d w = Some r" and v: "same_driver_view P1 c1 P2 c2"
  shows "add P2 c2 t p k d w = Some r"
proof -
  have "\<forall>P2 c2. same_driver_view P1 c1 P2 c2 \<longrightarrow> add P2 c2 t p k d w = Some r"
  proof (rule add.raw_induct
      [where Pa = "\<lambda>((((((P1, c1), t), p), k), d), w) r.
                    \<forall>P2 c2. same_driver_view P1 c1 P2 c2 \<longrightarrow> add P2 c2 t p k d w = Some r",
       OF _ a, unfolded split_conv], intro allI impI, goal_cases)
    case (1 add' P1 c1 t p k d w r P2 c2)
    note ih = 1(1) and body = 1(2) and v = 1(3)
    have f: "randomUUID P1 = randomUUID P2" "setTimeout P1 = setTimeout P2"
      using v by (simp_all add: same_driver_view_def)
    obtain uuid w0 where u: "randomUUID P2 w = (uuid, w0)" by (cases "randomUUID P2 w")
    obtain x w1 where x: "add_try P2 c2 t p k d (freshRevision uuid) w0 = (x, w1)"
      by (cases "add_try P2 c2 t p k d (freshRevision uuid) w0")
    obtain y w2 where y: "createTable P2 c2 t w1 = (y, w2)" by (cases "createTable P2 c2 t w1")
    note rw = f add_try_view[OF v] debug_view[OF v] createTable_view[OF v]
    have body': "(case x of
             Inr _ \<Rightarrow> Some (Inr (freshRevision uuid), w1)
           | Inl e \<Rightarrow>
               if isErrorType e ''ResourceNotFoundException'' then
                 (case y of
                    Inl e' \<Rightarrow> Some (Inl e', w2)
                  | Inr _ \<Rightarrow> add' P1 c1 t p k d (setTimeout P2 1000 w2))
               else if isErrorType e ''ResourceInUseException'' then
                 add' P1 c1 t p k d
                   (setTimeout P2 1000
                      (debug c2 ''Table in use; retrying assuming it is being created.'' e
                         t w1))
               else if isErrorType e ''ConditionalCheckFailedException'' then
                 Some (Inl conflict, w1)
               else Some (Inl e, w1)) = Some r"
      using body unfolding rw u x y prod.case by (cases x) (simp_all add: y)
    have goal': "add P2 c2 t p k d w = (case x of
             Inr _ \<Rightarrow> Some (Inr (freshRevision uuid), w1)
           | Inl e \<Rightarrow>
               if isErrorType e ''ResourceNotFoundException'' then
                 (case y of
                    Inl e' \<Rightarrow> Some (Inl e', w2)
                  | Inr _ \<Rightarrow> add P2 c2 t p k d (setTimeout P2 1000 w2))
               else if isErrorType e ''ResourceInUseException'' then
                 add P2 c2 t p k d
                   (setTimeout P2 1000
                      (debug c2 ''Table in use; retrying assuming it is being created.'' e
                         t w1))
               else if isErrorType e ''ConditionalCheckFailedException'' then
                 Some (Inl conflict, w1)
               else Some (Inl e, w1))"
      by (subst add.simps) (cases x; simp add: u x y)
    have step: "\<And>w'. add' P1 c1 t p k d w' = Some r \<Longrightarrow> add P2 c2 t p k d w' = Some r"
      using ih v by blast
    show ?case
      unfolding goal' using body' step
      by (cases x; cases y) (simp_all split: if_splits)
  qed
  then show ?thesis using v by blast
qed

lemma add_view:
  assumes v: "same_driver_view P1 c1 P2 c2"
  shows "add P1 c1 t p k d w = add P2 c2 t p k d w"
proof (cases "add P1 c1 t p k d w")
  case None
  show ?thesis
  proof (cases "add P2 c2 t p k d w")
    case None
    with \<open>add P1 c1 t p k d w = None\<close> show ?thesis by simp
  next
    case (Some r)
    from add_view_Some[OF Some view_sym[OF v]] None show ?thesis by simp
  qed
next
  case (Some r)
  from add_view_Some[OF Some v] Some show ?thesis by simp
qed

lemma update_view_Some:
  assumes a: "update P1 c1 t p k cr d w = Some r" and v: "same_driver_view P1 c1 P2 c2"
  shows "update P2 c2 t p k cr d w = Some r"
proof -
  have "\<forall>P2 c2. same_driver_view P1 c1 P2 c2 \<longrightarrow> update P2 c2 t p k cr d w = Some r"
  proof (rule update.raw_induct
      [where Pa = "\<lambda>(((((((P1, c1), t), p), k), cr), d), w) r.
                    \<forall>P2 c2. same_driver_view P1 c1 P2 c2 \<longrightarrow> update P2 c2 t p k cr d w = Some r",
       OF _ a, unfolded split_conv], intro allI impI, goal_cases)
    case (1 update' P1 c1 t p k cr d w r P2 c2)
    note ih = 1(1) and body = 1(2) and v = 1(3)
    have f: "randomUUID P1 = randomUUID P2" "setTimeout P1 = setTimeout P2"
      using v by (simp_all add: same_driver_view_def)
    obtain uuid w0 where u: "randomUUID P2 w = (uuid, w0)" by (cases "randomUUID P2 w")
    obtain x w1 where x: "update_try P2 c2 t p k cr d (freshRevision uuid) w0 = (x, w1)"
      by (cases "update_try P2 c2 t p k cr d (freshRevision uuid) w0")
    note rw = f update_try_view[OF v] debug_view[OF v]
    have body': "(case x of
             Inr _ \<Rightarrow> Some (Inr (freshRevision uuid), w1)
           | Inl e \<Rightarrow>
               if isErrorType e ''ConditionalCheckFailedException'' then
                 Some (Inl conflict, w1)
               else if isErrorType e ''ResourceInUseException'' then
                 update' P1 c1 t p k cr d
                   (setTimeout P2 1000
                      (debug c2 ''Table in use; retrying assuming it is being created.'' e
                         t w1))
               else if isErrorType e ''ResourceNotFoundException'' then
                 Some (Inl conflict, w1)
               else Some (Inl e, w1)) = Some r"
      using body unfolding rw u x prod.case by (cases x) simp_all
    have goal': "update P2 c2 t p k cr d w = (case x of
             Inr _ \<Rightarrow> Some (Inr (freshRevision uuid), w1)
           | Inl e \<Rightarrow>
               if isErrorType e ''ConditionalCheckFailedException'' then
                 Some (Inl conflict, w1)
               else if isErrorType e ''ResourceInUseException'' then
                 update P2 c2 t p k cr d
                   (setTimeout P2 1000
                      (debug c2 ''Table in use; retrying assuming it is being created.'' e
                         t w1))
               else if isErrorType e ''ResourceNotFoundException'' then
                 Some (Inl conflict, w1)
               else Some (Inl e, w1))"
      by (subst update.simps) (cases x; simp add: u x)
    have step: "\<And>w'. update' P1 c1 t p k cr d w' = Some r \<Longrightarrow> update P2 c2 t p k cr d w' = Some r"
      using ih v by blast
    show ?case
      unfolding goal' using body' step
      by (cases x) (simp_all split: if_splits)
  qed
  then show ?thesis using v by blast
qed

lemma update_view:
  assumes v: "same_driver_view P1 c1 P2 c2"
  shows "update P1 c1 t p k cr d w = update P2 c2 t p k cr d w"
proof (cases "update P1 c1 t p k cr d w")
  case None
  show ?thesis
  proof (cases "update P2 c2 t p k cr d w")
    case None
    with \<open>update P1 c1 t p k cr d w = None\<close> show ?thesis by simp
  next
    case (Some r)
    from update_view_Some[OF Some view_sym[OF v]] None show ?thesis by simp
  qed
next
  case (Some r)
  from update_view_Some[OF Some v] Some show ?thesis by simp
qed

lemma get_view:
  assumes v: "same_driver_view P1 c1 P2 c2"
  shows "get P1 c1 t p k w = get P2 c2 t p k w"
proof -
  have "JSON_parse P1 = JSON_parse P2" "env c1 = env c2"
    using v by (simp_all add: same_driver_view_def)
  then show ?thesis
    unfolding get_def by (simp only: dbRequest_view[OF v] tableName_view[OF v])
qed

lemma delete_view:
  assumes v: "same_driver_view P1 c1 P2 c2"
  shows "delete P1 c1 t p k cr w = delete P2 c2 t p k cr w"
proof -
  have "env c1 = env c2" using v by (simp add: same_driver_view_def)
  then show ?thesis
    unfolding delete_def by (simp only: dbRequest_view[OF v] tableName_view[OF v])
qed

lemma yield_items_view:
  "JSON_parse P1 = JSON_parse P2 \<Longrightarrow> yield_items P1 rng its = yield_items P2 rng its"
proof (induction its)
  case Nil
  show ?case by simp
next
  case (Cons it rest)
  show ?case
    by (simp only: yield_items.simps Cons.IH[OF Cons.prems] Cons.prems)
qed

lemma getPartition_from_view:
  assumes v: "same_driver_view P1 c1 P2 c2"
  shows "getPartition_from P1 c1 t p rng pages cursor w
           = getPartition_from P2 c2 t p rng pages cursor w"
proof (induction pages arbitrary: cursor w)
  case 0
  show ?case by simp
next
  case (Suc pages)
  have e: "JSON_parse P1 = JSON_parse P2" "env c1 = env c2"
    using v by (simp_all add: same_driver_view_def)
  show ?case
    by (simp only: getPartition_from.simps e(2) dbRequest_view[OF v] tableName_view[OF v]
        yield_items_view[OF e(1)] Suc.IH)
qed

text \<open>
  C10, as amended. No storage operation passes the abort signal of the context to a remote
  call: the outcome of \<open>add\<close>, \<open>get\<close>, \<open>getPartition\<close>, \<open>update\<close> and \<open>delete\<close>, and the
  world they leave, are the same whatever signal the context holds, and the same over a
  transport that is handed every call with the signal removed, so no call they issue
  carries one.
\<close>

theorem operations_ignore_signal:
  "add (without_signal P) (ctx\<lparr>signal := sg\<rparr>) table part key doc w
     = add P ctx table part key doc w
   \<and> get (without_signal P) (ctx\<lparr>signal := sg\<rparr>) table part key w
     = get P ctx table part key w
   \<and> getPartition (without_signal P) (ctx\<lparr>signal := sg\<rparr>) table part rng pages w
     = getPartition P ctx table part rng pages w
   \<and> update (without_signal P) (ctx\<lparr>signal := sg\<rparr>) table part key currentRevision doc w
     = update P ctx table part key currentRevision doc w
   \<and> delete (without_signal P) (ctx\<lparr>signal := sg\<rparr>) table part key currentRevision w
     = delete P ctx table part key currentRevision w"
  unfolding getPartition_def
  by (simp only: add_view[OF view_without_signal] get_view[OF view_without_signal]
      getPartition_from_view[OF view_without_signal] update_view[OF view_without_signal]
      delete_view[OF view_without_signal] simp_thms)

text \<open>
  The claim as stated fails: with an abort signal in the context, the one call \<open>get\<close>
  issues is sent without a signal.
\<close>

theorem get_ignores_signal_counterexample:
  "signal (test_context\<lparr>signal := Some (AbortSignal False)\<rparr> :: script Context)
     = Some (AbortSignal False)
   \<and> map init_signal
       (sent (snd (get script_platform (test_context\<lparr>signal := Some (AbortSignal False)\<rparr>)
                     ''t'' ''p'' ''k'' \<lparr>replies = [Inl ResourceNotFound], sent = []\<rparr>)))
     = [None]"
  by (simp add: get_def test_context_def dbRequest_test_env script_fetch)

section \<open>The driver over the store\<close>

subsection \<open>Decimal numerals\<close>

lemma digit_value_digit: "d < 10 \<Longrightarrow> digit_value (digit d) = Some d"
proof -
  assume "d < 10"
  then have "d = 0 \<or> d = 1 \<or> d = 2 \<or> d = 3 \<or> d = 4 \<or> d = 5 \<or> d = 6
    \<or> d = 7 \<or> d = 8 \<or> d = 9" by arith
  then show ?thesis by (elim disjE) (simp_all add: digit_def)
qed

lemma undec_from_append:
  "undec_from a (xs @ ys) = (case undec_from a xs of None \<Rightarrow> None | Some b \<Rightarrow> undec_from b ys)"
  by (induction xs arbitrary: a) (simp_all split: option.splits)

lemma undec_from_dec: "undec_from 0 (dec n) = Some n"
proof (induction n rule: dec.induct)
  case (1 n)
  show ?case
  proof (cases "n < 10")
    case True
    then show ?thesis by (subst dec.simps) (simp add: digit_value_digit del: digit_value.simps)
  next
    case False
    have "undec_from 0 (dec (n div 10) @ [digit (n mod 10)]) = Some n"
      using 1[OF False] by (simp add: undec_from_append digit_value_digit del: digit_value.simps)
    then show ?thesis using False by (subst dec.simps) simp
  qed
qed

lemma dec_nonempty: "dec n \<noteq> []"
  by (subst dec.simps) simp

lemma undec_dec: "undec (dec n) = Some n"
  by (simp add: undec_def dec_nonempty undec_from_dec)

lemma undec_one: "undec ''1'' = Some 1"
  by (simp add: undec_def)

subsection \<open>Requests against the store\<close>

lemma dynamo_dbRequest:
  assumes "has_credentials url ctx"
  shows "\<exists>call. http_body call = b \<and>
     dbRequest (dynamo_platform url js jp) (env ctx) (operation b) b w
       = (fst (dynamo_reply b (tables w)),
          w\<lparr>served := served w @ [call], tables := snd (dynamo_reply b (tables w))\<rparr>)"
proof -
  obtain m r k s u where m: "env ctx = Some m" "m ''AWS_REGION'' = Some r"
    "m ''AWS_ACCESS_KEY_ID'' = Some k" "m ''AWS_SECRET_ACCESS_KEY'' = Some s"
    "url (''https://dynamodb.'' @ r @ ''.amazonaws.com/'') = Some u"
    using assms by (auto simp: has_credentials_def split: option.splits)
  let ?call = "\<lparr>credentials = \<lparr>AWS_REGION = r, AWS_ACCESS_KEY_ID = k,
                       AWS_SECRET_ACCESS_KEY = s, AWS_SESSION_TOKEN = m ''AWS_SESSION_TOKEN''\<rparr>,
           uri = href u,
           http_method = ''POST'',
           sign_path = pathname u,
           sign_query = foldl (\<lambda>q (k, v). AList.update k v q) [] (searchParams u),
           headers =
             [(''host'', hostname u), (''content-type'', ''application/json''),
              (''accept'', ''application/json''), (''X-Amz-Target'', ''DynamoDB_20120810.'' @ operation b)],
           http_body = b, init_signal = None\<rparr>"
  have d: "dbRequest (dynamo_platform url js jp) (env ctx) (operation b) b w = dynamo_fetch ?call w"
    using m(5) by (simp add: dbRequest_def awsStringRequest_def m(1-4) dynamo_platform_def)
  have f: "dynamo_fetch ?call w = (fst (dynamo_reply b (tables w)),
          w\<lparr>served := served w @ [?call], tables := snd (dynamo_reply b (tables w))\<rparr>)"
    by (simp add: dynamo_fetch_def Let_def split: prod.splits)
  have b: "http_body ?call = b" by simp
  show ?thesis
    by (rule exI[of _ ?call], rule conjI[OF b], simp only: d f)
qed

lemma dynamo_fields [simp]:
  "new_URL (dynamo_platform url js jp) = url"
  "randomUUID (dynamo_platform url js jp) w = (uuids w (drawn w), w\<lparr>drawn := Suc (drawn w)\<rparr>)"
  "toISOString (dynamo_platform url js jp) w = calendar w (time w)"
  "setTimeout (dynamo_platform url js jp) ms w = w\<lparr>time := time w + ms\<rparr>"
  "JSON_stringify (dynamo_platform url js jp) = js"
  "JSON_parse (dynamo_platform url js jp) = jp"
  by (simp_all add: dynamo_platform_def)

lemma put_reply:
  "dynamo_reply
     (PutItemInput tn
        [(''partition'', S_of part), (''key'', S_of key), (''revision'', S_of rv),
         (''created'', S_of now), (''updated'', S_of now), (''seq'', N_of ''0''),
         (''document'', \<lparr>S = Some tx, N = None\<rparr>)]
        ''attribute_not_exists(revision)'') ts
   = (case map_of ts tn of
        None \<Rightarrow> (Inl ResourceNotFound, ts)
      | Some rs \<Rightarrow>
          if Option.bind (map_of rs (part, key)) (\<lambda>old. map_of old ''revision'') = None then
            (Inr no_content,
             AList.update tn
               (AList.update (part, key)
                  [(''partition'', S_of part), (''key'', S_of key), (''revision'', S_of rv),
                   (''created'', S_of now), (''updated'', S_of now), (''seq'', N_of ''0''),
                   (''document'', \<lparr>S = Some tx, N = None\<rparr>)] rs) ts)
          else (Inl ConditionalCheckFailed, ts))"
  by (simp add: dynamo_reply_def primary_key_def attr_S_def well_typed_def split: option.splits)

lemma add_try_dynamo:
  assumes "has_credentials url ctx" and "js doc = Inr (Some tx)"
  shows "\<exists>call.
     add_try (dynamo_platform url js jp) ctx table part key doc rv w
       = (fst (dynamo_reply
            (PutItemInput (tableName ctx table)
               [(''partition'', S_of part), (''key'', S_of key), (''revision'', S_of rv),
                (''created'', S_of (calendar w (time w))), (''updated'', S_of (calendar w (time w))),
                (''seq'', N_of ''0''), (''document'', \<lparr>S = Some tx, N = None\<rparr>)]
               ''attribute_not_exists(revision)'') (tables w)),
          w\<lparr>served := served w @ [call],
            tables := snd (dynamo_reply
            (PutItemInput (tableName ctx table)
               [(''partition'', S_of part), (''key'', S_of key), (''revision'', S_of rv),
                (''created'', S_of (calendar w (time w))), (''updated'', S_of (calendar w (time w))),
                (''seq'', N_of ''0''), (''document'', \<lparr>S = Some tx, N = None\<rparr>)]
               ''attribute_not_exists(revision)'') (tables w))\<rparr>)"
proof -
  let ?b = "PutItemInput (tableName ctx table)
               [(''partition'', S_of part), (''key'', S_of key), (''revision'', S_of rv),
                (''created'', S_of (calendar w (time w))), (''updated'', S_of (calendar w (time w))),
                (''seq'', N_of ''0''), (''document'', \<lparr>S = Some tx, N = None\<rparr>)]
               ''attribute_not_exists(revision)''"
  have op: "operation ?b = ''PutItem''" by (simp add: operation_def)
  from dynamo_dbRequest[OF assms(1), of ?b js jp w] obtain call where
    c: "dbRequest (dynamo_platform url js jp) (env ctx) ''PutItem'' ?b w
       = (fst (dynamo_reply ?b (tables w)),
          w\<lparr>served := served w @ [call], tables := snd (dynamo_reply ?b (tables w))\<rparr>)"
    unfolding op by blast
  have "add_try (dynamo_platform url js jp) ctx table part key doc rv w
          = dbRequest (dynamo_platform url js jp) (env ctx) ''PutItem'' ?b w"
    by (simp add: add_try_def assms(2) Let_def)
  with c show ?thesis by (intro exI[of _ call]) (simp only:)
qed

lemma get_dynamo:
  assumes "has_credentials url ctx"
    and "stored w (tableName ctx table) part key = Some it"
    and "jp (case attr_S it ''document'' of None \<Rightarrow> ''{}'' | Some s \<Rightarrow> s) = Some doc"
  shows "\<exists>w'. get (dynamo_platform url js jp) ctx table part key w
     = (Inr \<lparr>rec_partition = part, rec_key = key, rec_revision = attr_S it ''revision'',
             rec_document = doc\<rparr>, w')"
proof -
  let ?b = "GetItemInput (tableName ctx table) [(''partition'', S_of part), (''key'', S_of key)]"
  have op: "operation ?b = ''GetItem''" by (simp add: operation_def)
  obtain rs where rs: "map_of (tables w) (tableName ctx table) = Some rs"
    "map_of rs (part, key) = Some it"
    using assms(2) by (auto simp: stored_def split: Option.bind_splits)
  have r: "dynamo_reply ?b (tables w) = (Inr (no_content\<lparr>Item := Some it\<rparr>), tables w)"
    by (simp add: dynamo_reply_def rs primary_key_def attr_S_def)
  from dynamo_dbRequest[OF assms(1), of ?b js jp w] obtain call where
    c: "dbRequest (dynamo_platform url js jp) (env ctx) ''GetItem'' ?b w
       = (Inr (no_content\<lparr>Item := Some it\<rparr>), w\<lparr>served := served w @ [call], tables := tables w\<rparr>)"
    unfolding op r by auto
  show ?thesis
    by (simp add: get_def c assms(3))
qed

lemma add_on_table:
  assumes "has_credentials url ctx" and "js doc = Inr (Some tx)"
    and "map_of (tables w) (tableName ctx table) = Some rs"
    and "Option.bind (map_of rs (part, key)) (\<lambda>old. map_of old ''revision'') = None"
  shows "\<exists>w1 it. add (dynamo_platform url js jp) ctx table part key doc w
            = Some (Inr (freshRevision (uuids w (drawn w))), w1)
          \<and> stored w1 (tableName ctx table) part key = Some it
          \<and> attr_S it ''revision'' = Some (freshRevision (uuids w (drawn w)))
          \<and> attr_S it ''document'' = Some tx
          \<and> map_of it ''seq'' = Some (N_of ''0'')"
proof -
  let ?w0 = "w\<lparr>drawn := Suc (drawn w)\<rparr>"
  let ?rv = "freshRevision (uuids w (drawn w))"
  let ?it = "[(''partition'', S_of part), (''key'', S_of key), (''revision'', S_of ?rv),
                (''created'', S_of (calendar w (time w))), (''updated'', S_of (calendar w (time w))),
                (''seq'', N_of ''0''), (''document'', \<lparr>S = Some tx, N = None\<rparr>)]"
  from add_try_dynamo[where js = js and doc = doc and tx = tx and jp = jp and table = table
      and part = part and key = key and rv = ?rv and w = ?w0, OF assms(1,2)] obtain call where
    t: "add_try (dynamo_platform url js jp) ctx table part key doc ?rv ?w0
          = (Inr no_content,
             ?w0\<lparr>served := served w @ [call],
                 tables := AList.update (tableName ctx table) (AList.update (part, key) ?it rs) (tables w)\<rparr>)"
    by (auto simp: put_reply assms(3,4))
  let ?w1 = "?w0\<lparr>served := served w @ [call],
                 tables := AList.update (tableName ctx table) (AList.update (part, key) ?it rs) (tables w)\<rparr>"
  have a: "add (dynamo_platform url js jp) ctx table part key doc w = Some (Inr ?rv, ?w1)"
    by (subst add.simps) (simp add: t)
  have s: "stored ?w1 (tableName ctx table) part key = Some ?it"
    by (simp add: stored_def update_conv')
  show ?thesis
    by (rule exI[of _ ?w1], rule exI[of _ ?it]) (simp add: a s attr_S_def)
qed

lemma createTable_dynamo:
  assumes "has_credentials url ctx" and "map_of (tables w) (tableName ctx table) = None"
  shows "\<exists>call. createTable (dynamo_platform url js jp) ctx table w
     = (Inr (), w\<lparr>served := served w @ [call],
                   tables := AList.update (tableName ctx table) [] (tables w)\<rparr>)"
proof -
  obtain billing where
    ct: "createTable (dynamo_platform url js jp) ctx table w
      = (case dbRequest (dynamo_platform url js jp) (env ctx) ''CreateTable''
                (CreateTableInput (tableName ctx table)
                   [(''partition'', ''S''), (''key'', ''S'')]
                   [(''partition'', ''HASH''), (''key'', ''RANGE'')]
                   billing) w of
           (Inr _, w') \<Rightarrow> (Inr (), w')
         | (Inl e, w') \<Rightarrow>
             if isErrorType e ''ResourceInUseException'' then (Inr (), w') else (Inl e, w'))"
    by (simp add: createTable_def Let_def)
  let ?b = "CreateTableInput (tableName ctx table)
                   [(''partition'', ''S''), (''key'', ''S'')]
                   [(''partition'', ''HASH''), (''key'', ''RANGE'')] billing"
  have op: "operation ?b = ''CreateTable''" by (simp add: operation_def)
  have r: "dynamo_reply ?b (tables w)
             = (Inr no_content, AList.update (tableName ctx table) [] (tables w))"
    by (simp add: dynamo_reply_def assms(2))
  from dynamo_dbRequest[OF assms(1), of ?b js jp w] obtain call where
    c: "dbRequest (dynamo_platform url js jp) (env ctx) ''CreateTable'' ?b w
       = (Inr no_content, w\<lparr>served := served w @ [call],
                   tables := AList.update (tableName ctx table) [] (tables w)\<rparr>)"
    unfolding op r by auto
  show ?thesis
    by (rule exI[of _ call]) (simp add: ct c)
qed

lemma add_missing_table:
  assumes "has_credentials url ctx" and "js doc = Inr (Some tx)"
    and "map_of (tables w) (tableName ctx table) = None"
  shows "\<exists>rv w1 it. add (dynamo_platform url js jp) ctx table part key doc w = Some (Inr rv, w1)
          \<and> stored w1 (tableName ctx table) part key = Some it
          \<and> attr_S it ''revision'' = Some rv
          \<and> attr_S it ''document'' = Some tx
          \<and> map_of it ''seq'' = Some (N_of ''0'')"
proof -
  let ?w0 = "w\<lparr>drawn := Suc (drawn w)\<rparr>"
  let ?rv = "freshRevision (uuids w (drawn w))"
  from add_try_dynamo[where js = js and doc = doc and tx = tx and jp = jp and table = table
      and part = part and key = key and rv = ?rv and w = ?w0, OF assms(1,2)] obtain call where
    t: "add_try (dynamo_platform url js jp) ctx table part key doc ?rv ?w0
          = (Inl ResourceNotFound, ?w0\<lparr>served := served w @ [call], tables := tables w\<rparr>)"
    by (auto simp: put_reply assms(3))
  let ?w1 = "?w0\<lparr>served := served w @ [call], tables := tables w\<rparr>"
  have m1: "map_of (tables ?w1) (tableName ctx table) = None" using assms(3) by simp
  from createTable_dynamo[OF assms(1) m1, of js jp] obtain call2 where
    ct: "createTable (dynamo_platform url js jp) ctx table ?w1
      = (Inr (), ?w1\<lparr>served := served ?w1 @ [call2],
                   tables := AList.update (tableName ctx table) [] (tables ?w1)\<rparr>)"
    by blast
  let ?w2 = "?w1\<lparr>served := served ?w1 @ [call2],
                   tables := AList.update (tableName ctx table) [] (tables ?w1)\<rparr>"
  let ?w3 = "?w2\<lparr>time := time ?w2 + 1000\<rparr>"
  have a: "add (dynamo_platform url js jp) ctx table part key doc w
             = add (dynamo_platform url js jp) ctx table part key doc ?w3"
    by (subst add.simps) (simp add: t ct[simplified] isErrorType_service_errors)
  have m3: "map_of (tables ?w3) (tableName ctx table) = Some []"
    by (simp add: update_conv')
  from add_on_table[where js = js and doc = doc and tx = tx and jp = jp and w = ?w3
      and table = table and part = part and key = key and rs = "[]", OF assms(1,2) m3]
  obtain w4 it where
    "add (dynamo_platform url js jp) ctx table part key doc ?w3
            = Some (Inr (freshRevision (uuids ?w3 (drawn ?w3))), w4)"
    "stored w4 (tableName ctx table) part key = Some it"
    "attr_S it ''revision'' = Some (freshRevision (uuids ?w3 (drawn ?w3)))"
    "attr_S it ''document'' = Some tx"
    "map_of it ''seq'' = Some (N_of ''0'')"
    by auto
  then show ?thesis unfolding a by blast
qed

lemma add_number_seq:
  assumes "seq_of it = Some n"
  shows "add_number (map_of it ''seq'') (N_of ''1'') = Some (N_of (dec (n + 1)))"
  using assms
  by (auto simp: seq_of_def add_number_def undec_one split: Option.bind_splits)

lemma update_reply:
  assumes "map_of ts tn = Some rs" and "map_of rs (part, key) = Some it"
    and "map_of it ''revision'' = Some (S_of r)" and "seq_of it = Some n"
  shows "dynamo_reply
     (UpdateItemInput tn [(''partition'', S_of part), (''key'', S_of key)]
        ''ADD seq :one SET revision = :newRevision, updated = :now, document = :document''
        ''revision = :oldRevision''
        [('':one'', N_of ''1''), ('':oldRevision'', \<lparr>S = Some r, N = None\<rparr>),
         ('':newRevision'', S_of nr), ('':now'', S_of now),
         ('':document'', \<lparr>S = Some tx, N = None\<rparr>)]) ts
   = (Inr no_content,
      AList.update tn
        (AList.update (part, key)
           (AList.update ''document'' (S_of tx)
              (AList.update ''updated'' (S_of now)
                 (AList.update ''revision'' (S_of nr)
                    (AList.update ''seq'' (N_of (dec (n + 1))) it)))) rs) ts)"
  by (simp add: dynamo_reply_def primary_key_def attr_S_def well_typed_def assms(1,2,3)
      add_number_seq[OF assms(4)])

lemma update_try_dynamo:
  assumes "has_credentials url ctx" and "js doc = Inr (Some tx)"
  shows "\<exists>call.
     update_try (dynamo_platform url js jp) ctx table part key (Some r) doc nr w
       = (fst (dynamo_reply
            (UpdateItemInput (tableName ctx table) [(''partition'', S_of part), (''key'', S_of key)]
               ''ADD seq :one SET revision = :newRevision, updated = :now, document = :document''
               ''revision = :oldRevision''
               [('':one'', N_of ''1''), ('':oldRevision'', \<lparr>S = Some r, N = None\<rparr>),
                ('':newRevision'', S_of nr), ('':now'', S_of (calendar w (time w))),
                ('':document'', \<lparr>S = Some tx, N = None\<rparr>)]) (tables w)),
          w\<lparr>served := served w @ [call],
            tables := snd (dynamo_reply
            (UpdateItemInput (tableName ctx table) [(''partition'', S_of part), (''key'', S_of key)]
               ''ADD seq :one SET revision = :newRevision, updated = :now, document = :document''
               ''revision = :oldRevision''
               [('':one'', N_of ''1''), ('':oldRevision'', \<lparr>S = Some r, N = None\<rparr>),
                ('':newRevision'', S_of nr), ('':now'', S_of (calendar w (time w))),
                ('':document'', \<lparr>S = Some tx, N = None\<rparr>)]) (tables w))\<rparr>)"
proof -
  let ?b = "UpdateItemInput (tableName ctx table) [(''partition'', S_of part), (''key'', S_of key)]
               ''ADD seq :one SET revision = :newRevision, updated = :now, document = :document''
               ''revision = :oldRevision''
               [('':one'', N_of ''1''), ('':oldRevision'', \<lparr>S = Some r, N = None\<rparr>),
                ('':newRevision'', S_of nr), ('':now'', S_of (calendar w (time w))),
                ('':document'', \<lparr>S = Some tx, N = None\<rparr>)]"
  have op: "operation ?b = ''UpdateItem''" by (simp add: operation_def)
  from dynamo_dbRequest[OF assms(1), of ?b js jp w] obtain call where
    c: "dbRequest (dynamo_platform url js jp) (env ctx) ''UpdateItem'' ?b w
       = (fst (dynamo_reply ?b (tables w)),
          w\<lparr>served := served w @ [call], tables := snd (dynamo_reply ?b (tables w))\<rparr>)"
    unfolding op by blast
  have "update_try (dynamo_platform url js jp) ctx table part key (Some r) doc nr w
          = dbRequest (dynamo_platform url js jp) (env ctx) ''UpdateItem'' ?b w"
    by (simp add: update_try_def assms(2) Let_def)
  with c show ?thesis by (intro exI[of _ call]) (simp only:)
qed

lemma has_credentials_test: "has_credentials url_model test_context"
  by (simp add: has_credentials_def test_context_def test_env_def url_model_test)

lemma stored_sample:
  "stored sample_store (tableName test_context ''t'') ''p'' ''k1'' = Some (sample_item ''k1'')"
  "stored sample_store (tableName test_context ''t'') ''p'' ''k2'' = None"
  by (simp_all add: stored_def sample_store_def tableName_test)

subsection \<open>Duplicate add\<close>

text \<open>
  C3. Over the store, from a context that holds the credentials and whose endpoint
  \<open>new URL\<close> accepts, when a record with the identity (partition, key) is in the table, an
  \<open>add\<close> of a serializable document with that identity fails with the Conflict error,
  whose status is 409. It does not retry: the store has served exactly one more call, and
  its tables are unchanged.
\<close>

theorem add_existing_conflict:
  assumes "has_credentials url ctx" and "js doc = Inr (Some tx)"
    and "stored w (tableName ctx table) part key = Some old"
    and "map_of old ''revision'' \<noteq> None"
  shows "\<exists>w'. add (dynamo_platform url js jp) ctx table part key doc w = Some (Inl conflict, w')
          \<and> status conflict = Some 409
          \<and> tables w' = tables w
          \<and> length (served w') = Suc (length (served w))"
proof -
  let ?w0 = "w\<lparr>drawn := Suc (drawn w)\<rparr>"
  let ?rv = "freshRevision (uuids w (drawn w))"
  obtain rs where rs: "map_of (tables w) (tableName ctx table) = Some rs"
    "map_of rs (part, key) = Some old"
    using assms(3) by (auto simp: stored_def split: Option.bind_splits)
  from add_try_dynamo[where js = js and doc = doc and tx = tx and jp = jp and table = table
      and part = part and key = key and rv = ?rv and w = ?w0, OF assms(1,2)] obtain call where
    t: "add_try (dynamo_platform url js jp) ctx table part key doc ?rv ?w0
          = (Inl ConditionalCheckFailed, ?w0\<lparr>served := served w @ [call], tables := tables w\<rparr>)"
    using assms(4) by (auto simp: put_reply rs)
  have "add (dynamo_platform url js jp) ctx table part key doc w
          = Some (Inl conflict, ?w0\<lparr>served := served w @ [call], tables := tables w\<rparr>)"
    by (subst add.simps) (simp add: t isErrorType_service_errors)
  then show ?thesis by (simp add: conflict_def)
qed

theorem add_existing_conflict_witness:
  "\<exists>w'. add (dynamo_platform url_model doc_stringify doc_parse) test_context ''t'' ''p'' ''k1'' EmptyObject
            sample_store = Some (Inl conflict, w')
        \<and> status conflict = Some 409
        \<and> tables w' = tables sample_store
        \<and> length (served w') = Suc (length (served sample_store))"
proof -
  have 1: "doc_stringify EmptyObject = Inr (Some ''{}'')" by simp
  have 2: "map_of (sample_item ''k1'') ''revision'' \<noteq> None" by (simp add: sample_item_def)
  show ?thesis
    by (rule add_existing_conflict[where js = doc_stringify and doc = EmptyObject,
          OF has_credentials_test 1 stored_sample(1) 2])
qed

subsection \<open>Round trip\<close>

text \<open>
  C1. Over the store, from a context that holds the credentials and whose endpoint
  \<open>new URL\<close> accepts, for every table, partition, key and document that \<open>JSON.stringify\<close>
  and \<open>JSON.parse\<close> take to a text and back, when no record has the identity yet, \<open>add\<close>
  returns a revision (creating the table first if it is missing), the \<open>get\<close> that
  follows returns a record with the document passed to \<open>add\<close> and the revision \<open>add\<close>
  returned, and the \<open>seq\<close> attribute of the stored record is 0.
\<close>

theorem add_get_roundtrip:
  assumes "has_credentials url ctx" and "js doc = Inr (Some tx)" and "jp tx = Some doc"
    and "stored w (tableName ctx table) part key = None"
  shows "\<exists>rv w1 w2 it.
           add (dynamo_platform url js jp) ctx table part key doc w = Some (Inr rv, w1)
         \<and> get (dynamo_platform url js jp) ctx table part key w1
             = (Inr \<lparr>rec_partition = part, rec_key = key, rec_revision = Some rv,
                     rec_document = doc\<rparr>, w2)
         \<and> stored w1 (tableName ctx table) part key = Some it
         \<and> map_of it ''seq'' = Some (N_of ''0'')"
proof -
  have "\<exists>rv w1 it. add (dynamo_platform url js jp) ctx table part key doc w = Some (Inr rv, w1)
          \<and> stored w1 (tableName ctx table) part key = Some it
          \<and> attr_S it ''revision'' = Some rv
          \<and> attr_S it ''document'' = Some tx
          \<and> map_of it ''seq'' = Some (N_of ''0'')"
  proof (cases "map_of (tables w) (tableName ctx table)")
    case None
    from add_missing_table[where js = js and doc = doc and tx = tx, OF assms(1,2) None]
    show ?thesis .
  next
    case (Some rs)
    then have "Option.bind (map_of rs (part, key)) (\<lambda>old. map_of old ''revision'') = None"
      using assms(4) by (simp add: stored_def)
    from add_on_table[where js = js and doc = doc and tx = tx, OF assms(1,2) Some this]
    show ?thesis by blast
  qed
  then obtain rv w1 it where a:
    "add (dynamo_platform url js jp) ctx table part key doc w = Some (Inr rv, w1)"
    "stored w1 (tableName ctx table) part key = Some it"
    "attr_S it ''revision'' = Some rv" "attr_S it ''document'' = Some tx"
    "map_of it ''seq'' = Some (N_of ''0'')"
    by blast
  have "jp (case attr_S it ''document'' of None \<Rightarrow> ''{}'' | Some s \<Rightarrow> s) = Some doc"
    using a(4) assms(3) by simp
  from get_dynamo[where jp = jp and js = js, OF assms(1) a(2) this] obtain w2 where
    "get (dynamo_platform url js jp) ctx table part key w1
       = (Inr \<lparr>rec_partition = part, rec_key = key, rec_revision = attr_S it ''revision'',
               rec_document = doc\<rparr>, w2)"
    by blast
  with a show ?thesis by auto
qed

theorem add_get_roundtrip_witness:
  "\<exists>rv w1 w2 it.
     add (dynamo_platform url_model doc_stringify doc_parse) test_context ''t'' ''p'' ''k2'' EmptyObject
       sample_store = Some (Inr rv, w1)
   \<and> get (dynamo_platform url_model doc_stringify doc_parse) test_context ''t'' ''p'' ''k2'' w1
       = (Inr \<lparr>rec_partition = ''p'', rec_key = ''k2'', rec_revision = Some rv,
               rec_document = EmptyObject\<rparr>, w2)
   \<and> stored w1 (tableName (test_context :: dynamo Context) ''t'') ''p'' ''k2'' = Some it
   \<and> map_of it ''seq'' = Some (N_of ''0'')"
proof -
  have 1: "doc_stringify EmptyObject = Inr (Some ''{}'')" by simp
  have 2: "doc_parse ''{}'' = Some EmptyObject" by simp
  show ?thesis
    by (rule add_get_roundtrip[where js = doc_stringify and jp = doc_parse and doc = EmptyObject,
          OF has_credentials_test 1 2 stored_sample(2)])
qed

subsection \<open>Update\<close>

lemma update_on_record:
  assumes "has_credentials url ctx" and "js doc = Inr (Some tx)" and "jp tx = Some doc"
    and "stored w (tableName ctx table) part key = Some it"
    and "map_of it ''revision'' = Some (S_of r)" and "seq_of it = Some n"
  shows "\<exists>w1 w2 it'.
           update (dynamo_platform url js jp) ctx table part key (Some r) doc w
             = Some (Inr (freshRevision (uuids w (drawn w))), w1)
         \<and> stored w1 (tableName ctx table) part key = Some it'
         \<and> seq_of it' = Some (n + 1)
         \<and> attr_S it' ''document'' = Some tx
         \<and> attr_S it' ''revision'' = Some (freshRevision (uuids w (drawn w)))
         \<and> get (dynamo_platform url js jp) ctx table part key w1
             = (Inr \<lparr>rec_partition = part, rec_key = key,
                     rec_revision = Some (freshRevision (uuids w (drawn w))),
                     rec_document = doc\<rparr>, w2)"
proof -
  let ?w0 = "w\<lparr>drawn := Suc (drawn w)\<rparr>"
  let ?nr = "freshRevision (uuids w (drawn w))"
  let ?now = "calendar w (time w)"
  obtain rs where rs: "map_of (tables w) (tableName ctx table) = Some rs"
    "map_of rs (part, key) = Some it"
    using assms(4) by (auto simp: stored_def split: Option.bind_splits)
  let ?it' = "AList.update ''document'' (S_of tx)
              (AList.update ''updated'' (S_of ?now)
                 (AList.update ''revision'' (S_of ?nr)
                    (AList.update ''seq'' (N_of (dec (n + 1))) it)))"
  let ?ts = "AList.update (tableName ctx table) (AList.update (part, key) ?it' rs) (tables w)"
  from update_try_dynamo[where js = js and doc = doc and tx = tx and jp = jp and table = table
      and part = part and key = key and r = r and nr = ?nr and w = ?w0, OF assms(1,2)]
  obtain call where
    t: "update_try (dynamo_platform url js jp) ctx table part key (Some r) doc ?nr ?w0
          = (Inr no_content, ?w0\<lparr>served := served w @ [call], tables := ?ts\<rparr>)"
    by (auto simp: update_reply[OF rs assms(5,6)])
  let ?w1 = "?w0\<lparr>served := served w @ [call], tables := ?ts\<rparr>"
  have u: "update (dynamo_platform url js jp) ctx table part key (Some r) doc w = Some (Inr ?nr, ?w1)"
    by (subst update.simps) (simp add: t)
  have s: "stored ?w1 (tableName ctx table) part key = Some ?it'"
    by (simp add: stored_def update_conv')
  have q: "seq_of ?it' = Some (n + 1)"
    by (simp add: seq_of_def update_conv' undec_dec)
  have d: "attr_S ?it' ''document'' = Some tx"
    by (simp add: attr_S_def update_conv')
  have v: "attr_S ?it' ''revision'' = Some ?nr"
    by (simp add: attr_S_def update_conv')
  have o: "attr_S it ''revision'' = Some r"
    using assms(5) by (simp add: attr_S_def)
  have "jp (case attr_S ?it' ''document'' of None \<Rightarrow> ''{}'' | Some s \<Rightarrow> s) = Some doc"
    using d assms(3) by simp
  from get_dynamo[where jp = jp and js = js, OF assms(1) s this] obtain w2 where
    g: "get (dynamo_platform url js jp) ctx table part key ?w1
       = (Inr \<lparr>rec_partition = part, rec_key = key, rec_revision = attr_S ?it' ''revision'',
               rec_document = doc\<rparr>, w2)"
    by blast
  show ?thesis
    by (rule exI[of _ ?w1], rule exI[of _ w2], rule exI[of _ ?it'])
      (simp only: u s q d v g simp_thms)
qed

text \<open>
  C2, as amended. Over the store, from a context that holds the credentials and whose
  endpoint \<open>new URL\<close> accepts, for every record and every serializable document,
  \<open>update\<close> with the record's stored revision succeeds and returns the token it drew from
  \<open>randomUUID\<close>, with the hyphens removed; afterwards the record's \<open>seq\<close> is one more than
  before, its document is the new one, its revision is the returned token, and a following
  \<open>get\<close> reports that revision and the new document. The revision differs from the old one
  whenever the token drawn differs from it.
\<close>

theorem update_current_revision:
  assumes "has_credentials url ctx" and "js doc = Inr (Some tx)" and "jp tx = Some doc"
    and "stored w (tableName ctx table) part key = Some it"
    and "map_of it ''revision'' = Some (S_of r)" and "seq_of it = Some n"
  shows "\<exists>w1 w2 it'.
           update (dynamo_platform url js jp) ctx table part key (Some r) doc w
             = Some (Inr (filter (\<lambda>c. c \<noteq> CHR ''-'') (uuids w (drawn w))), w1)
         \<and> stored w1 (tableName ctx table) part key = Some it'
         \<and> seq_of it' = Some (n + 1)
         \<and> attr_S it' ''document'' = Some tx
         \<and> attr_S it' ''revision'' = Some (filter (\<lambda>c. c \<noteq> CHR ''-'') (uuids w (drawn w)))
         \<and> (filter (\<lambda>c. c \<noteq> CHR ''-'') (uuids w (drawn w)) \<noteq> r
              \<longrightarrow> attr_S it' ''revision'' \<noteq> attr_S it ''revision'')
         \<and> get (dynamo_platform url js jp) ctx table part key w1
             = (Inr \<lparr>rec_partition = part, rec_key = key,
                     rec_revision = Some (filter (\<lambda>c. c \<noteq> CHR ''-'') (uuids w (drawn w))),
                     rec_document = doc\<rparr>, w2)"
proof -
  from update_on_record[where js = js and jp = jp and doc = doc, OF assms]
  obtain w1 w2 it' where *:
    "update (dynamo_platform url js jp) ctx table part key (Some r) doc w
             = Some (Inr (freshRevision (uuids w (drawn w))), w1)"
    "stored w1 (tableName ctx table) part key = Some it'"
    "seq_of it' = Some (n + 1)"
    "attr_S it' ''document'' = Some tx"
    "attr_S it' ''revision'' = Some (freshRevision (uuids w (drawn w)))"
    "get (dynamo_platform url js jp) ctx table part key w1
             = (Inr \<lparr>rec_partition = part, rec_key = key,
                     rec_revision = Some (freshRevision (uuids w (drawn w))),
                     rec_document = doc\<rparr>, w2)"
    by blast
  have o: "attr_S it ''revision'' = Some r"
    using assms(5) by (simp add: attr_S_def)
  show ?thesis
    apply (rule exI[of _ w1], rule exI[of _ w2], rule exI[of _ it'])
    using * o unfolding freshRevision_def by simp
qed

theorem update_current_revision_witness:
  "\<exists>w1 w2 it'.
     update (dynamo_platform url_model doc_stringify doc_parse) test_context ''t'' ''p'' ''k1''
       (Some ''0a'') EmptyObject sample_store
       = Some (Inr ''6f1c2d3e4a5b4c6d8e7f901a2b3c4d5e'', w1)
   \<and> stored w1 (tableName (test_context :: dynamo Context) ''t'') ''p'' ''k1'' = Some it'
   \<and> seq_of it' = Some 1
   \<and> attr_S it' ''revision'' = Some ''6f1c2d3e4a5b4c6d8e7f901a2b3c4d5e''
   \<and> attr_S it' ''revision'' \<noteq> attr_S (sample_item ''k1'') ''revision''
   \<and> get (dynamo_platform url_model doc_stringify doc_parse) test_context ''t'' ''p'' ''k1'' w1
       = (Inr \<lparr>rec_partition = ''p'', rec_key = ''k1'',
               rec_revision = Some ''6f1c2d3e4a5b4c6d8e7f901a2b3c4d5e'',
               rec_document = EmptyObject\<rparr>, w2)"
proof -
  have 1: "doc_stringify EmptyObject = Inr (Some ''{}'')" by simp
  have 2: "doc_parse ''{}'' = Some EmptyObject" by simp
  have 3: "map_of (sample_item ''k1'') ''revision'' = Some (S_of ''0a'')"
    by (simp add: sample_item_def)
  have 4: "seq_of (sample_item ''k1'') = Some 0"
    by (simp add: seq_of_def sample_item_def undec_def)
  have 5: "filter (\<lambda>c. c \<noteq> CHR ''-'') (uuids sample_store (drawn sample_store))
             = ''6f1c2d3e4a5b4c6d8e7f901a2b3c4d5e''"
    by (simp add: sample_store_def)
  from update_current_revision[where js = doc_stringify and jp = doc_parse and doc = EmptyObject,
          OF has_credentials_test 1 2 stored_sample(1) 3 4]
  obtain w1 w2 it' where
    "update (dynamo_platform url_model doc_stringify doc_parse) test_context ''t'' ''p'' ''k1''
       (Some ''0a'') EmptyObject sample_store
       = Some (Inr (filter (\<lambda>c. c \<noteq> CHR ''-'') (uuids sample_store (drawn sample_store))), w1)"
    "stored w1 (tableName (test_context :: dynamo Context) ''t'') ''p'' ''k1'' = Some it'"
    "seq_of it' = Some (0 + 1)"
    "attr_S it' ''revision''
       = Some (filter (\<lambda>c. c \<noteq> CHR ''-'') (uuids sample_store (drawn sample_store)))"
    "filter (\<lambda>c. c \<noteq> CHR ''-'') (uuids sample_store (drawn sample_store)) \<noteq> ''0a''
       \<longrightarrow> attr_S it' ''revision'' \<noteq> attr_S (sample_item ''k1'') ''revision''"
    "get (dynamo_platform url_model doc_stringify doc_parse) test_context ''t'' ''p'' ''k1'' w1
       = (Inr \<lparr>rec_partition = ''p'', rec_key = ''k1'',
               rec_revision = Some (filter (\<lambda>c. c \<noteq> CHR ''-'') (uuids sample_store (drawn sample_store))),
               rec_document = EmptyObject\<rparr>, w2)"
    by blast
  then show ?thesis
    unfolding 5 by (intro exI[of _ w1] exI[of _ w2] exI[of _ it']) simp
qed

text \<open>
  The claim as stated fails when \<open>randomUUID\<close> gives the token the record already has as
  its revision: the update succeeds and the revision is what it was. The code draws the
  token and does not compare it.
\<close>

theorem update_same_token_counterexample:
  "map_option fst
     (update (dynamo_platform url_model doc_stringify doc_parse) test_context ''t'' ''p'' ''k1''
        (Some ''6f1c2d3e4a5b4c6d8e7f901a2b3c4d5e'') EmptyObject colliding_store)
     = Some (Inr ''6f1c2d3e4a5b4c6d8e7f901a2b3c4d5e'')
   \<and> Option.bind (stored colliding_store ''DocsTests.t'' ''p'' ''k1'')
        (\<lambda>it. attr_S it ''revision'') = Some ''6f1c2d3e4a5b4c6d8e7f901a2b3c4d5e''
   \<and> Option.bind
        (update (dynamo_platform url_model doc_stringify doc_parse) test_context ''t'' ''p'' ''k1''
           (Some ''6f1c2d3e4a5b4c6d8e7f901a2b3c4d5e'') EmptyObject colliding_store)
        (\<lambda>(x, w1). Option.bind (stored w1 ''DocsTests.t'' ''p'' ''k1'')
           (\<lambda>it. attr_S it ''revision'')) = Some ''6f1c2d3e4a5b4c6d8e7f901a2b3c4d5e''"
proof -
  let ?it = "[(''partition'', S_of ''p''), (''key'', S_of ''k1''),
               (''revision'', S_of ''6f1c2d3e4a5b4c6d8e7f901a2b3c4d5e''),
               (''seq'', N_of ''0''), (''document'', S_of ''{}'')]"
  have 1: "doc_stringify EmptyObject = Inr (Some ''{}'')" by simp
  have 2: "doc_parse ''{}'' = Some EmptyObject" by simp
  have s: "stored colliding_store (tableName (test_context :: dynamo Context) ''t'') ''p'' ''k1'' = Some ?it"
    by (simp add: stored_def colliding_store_def sample_store_def tableName_test)
  have 3: "map_of ?it ''revision'' = Some (S_of ''6f1c2d3e4a5b4c6d8e7f901a2b3c4d5e'')" by simp
  have 4: "seq_of ?it = Some 0" by (simp add: seq_of_def undec_def)
  have 5: "freshRevision (uuids colliding_store (drawn colliding_store))
             = ''6f1c2d3e4a5b4c6d8e7f901a2b3c4d5e''"
    by (simp add: freshRevision_def colliding_store_def sample_store_def)
  from update_on_record[where js = doc_stringify and jp = doc_parse and doc = EmptyObject,
          OF has_credentials_test 1 2 s 3 4]
  obtain w1 it' where
    "update (dynamo_platform url_model doc_stringify doc_parse) test_context ''t'' ''p'' ''k1''
       (Some ''6f1c2d3e4a5b4c6d8e7f901a2b3c4d5e'') EmptyObject colliding_store
       = Some (Inr (freshRevision (uuids colliding_store (drawn colliding_store))), w1)"
    "stored w1 (tableName (test_context :: dynamo Context) ''t'') ''p'' ''k1'' = Some it'"
    "attr_S it' ''revision'' = Some (freshRevision (uuids colliding_store (drawn colliding_store)))"
    by blast
  then show ?thesis
    using s unfolding 5 by (simp add: tableName_test attr_S_def)
qed

subsection \<open>Conditional delete with an empty revision\<close>

lemma delete_empty_revision_missing_table:
  "fst (delete script_platform test_context ''t'' ''p'' ''k'' (Some '''')
      \<lparr>replies = [Inl ResourceNotFound], sent = []\<rparr>) = Inr ()
   \<and> map http_body (sent (snd (delete script_platform test_context ''t'' ''p'' ''k'' (Some '''')
      \<lparr>replies = [Inl ResourceNotFound], sent = []\<rparr>)))
     = [DeleteItemInput ''DocsTests.t'' [(''partition'', S_of ''p''), (''key'', S_of ''k'')]
          (Some (''revision = :oldRevision'', [('':oldRevision'', S_of '''')]))]
   \<and> isErrorType ResourceNotFound ''ResourceNotFoundException''"
  by (simp add: delete_def dbRequest_test_env script_fetch isErrorType_service_errors
      tableName_test)

lemma delete_empty_revision_existing_record:
  "fst (delete (dynamo_platform url_model doc_stringify doc_parse) test_context ''t'' ''p'' ''k1''
          (Some []) sample_store) = Inl conflict"
proof -
  let ?b = "DeleteItemInput (tableName (test_context :: dynamo Context) ''t'')
              [(''partition'', S_of ''p''), (''key'', S_of ''k1'')]
              (Some (''revision = :oldRevision'', [('':oldRevision'', S_of [])]))"
  have op: "operation ?b = ''DeleteItem''" by (simp add: operation_def)
  have r: "fst (dynamo_reply ?b (tables sample_store)) = Inl ConditionalCheckFailed"
    by (simp add: dynamo_reply_def tableName_test sample_store_def primary_key_def attr_S_def
        well_typed_def sample_item_def)
  from dynamo_dbRequest[OF has_credentials_test, of ?b doc_stringify doc_parse sample_store]
  obtain w' where
    "dbRequest (dynamo_platform url_model doc_stringify doc_parse) (env (test_context :: dynamo Context))
       ''DeleteItem'' ?b sample_store = (Inl ConditionalCheckFailed, w')"
    unfolding op r by blast
  then show ?thesis
    by (simp add: delete_def isErrorType_service_errors)
qed

text \<open>
  C8. When the remote reports the table missing, a \<open>delete\<close> for which a
  \<open>currentRevision\<close> was supplied is claimed to fail with Conflict. With the empty string
  as \<open>currentRevision\<close> the code does otherwise: the request is built under
  \<open>currentRevision !== undefined\<close> and carries the condition on the revision, the remote
  answers ResourceNotFoundException, and the call returns normally, because the \<open>catch\<close>
  clause tests \<open>if (currentRevision)\<close>. The same call against a table that holds the record
  is a Conflict.
\<close>

theorem delete_empty_revision:
  "fst (delete script_platform test_context ''t'' ''p'' ''k'' (Some [])
      \<lparr>replies = [Inl ResourceNotFound], sent = []\<rparr>) = Inr ()
   \<and> map http_body (sent (snd (delete script_platform test_context ''t'' ''p'' ''k'' (Some [])
      \<lparr>replies = [Inl ResourceNotFound], sent = []\<rparr>)))
     = [DeleteItemInput ''DocsTests.t'' [(''partition'', S_of ''p''), (''key'', S_of ''k'')]
          (Some (''revision = :oldRevision'', [('':oldRevision'', S_of [])]))]
   \<and> isErrorType ResourceNotFound ''ResourceNotFoundException''
   \<and> fst (delete (dynamo_platform url_model doc_stringify doc_parse) test_context ''t'' ''p'' ''k1''
          (Some []) sample_store) = Inl conflict"
  using delete_empty_revision_missing_table delete_empty_revision_existing_record
  by simp

end
